theory Spec2Isabelle
  imports Complex_Main
begin

section \<open>NumPy float64 values\<close>

text \<open>
  The trend code of \<^verbatim>\<open>GreenLSTTrends3YrMedians.py\<close> and
  \<^verbatim>\<open>CollectCensusTractStats3.py\<close> computes on NumPy float64 arrays and relies on the
  IEEE special values: a missing observation is \<^verbatim>\<open>np.nan\<close>, a division by zero gives
  an infinity or a NaN (with a warning, never an exception).  The embedding keeps the special
  values and their arithmetic and takes finite results as exact real numbers: rounding,
  overflow and the sign of zero are not modelled.  The statements of the last section are
  chosen so that this idealisation does not carry them: they are evaluations at inputs whose
  intermediate results are small integers (exact in float64 as well; in C5 the values
  \<open>1 / sqrt 3\<close> and \<open>4/3\<close> stand for the floats next to them), statements under hypotheses
  on computed values (a computed correlation of exactly 1, a computed mean equal to the
  constant of the series), and statements on the structure of the output, in which no
  arithmetic takes part.
\<close>

datatype npfloat = Fin real | PInf | NInf | NaN

fun fneg :: "npfloat \<Rightarrow> npfloat" where
  "fneg (Fin x) = Fin (- x)"
| "fneg PInf = NInf"
| "fneg NInf = PInf"
| "fneg NaN = NaN"

fun fadd :: "npfloat \<Rightarrow> npfloat \<Rightarrow> npfloat" where
  "fadd NaN y = NaN"
| "fadd x NaN = NaN"
| "fadd (Fin x) (Fin y) = Fin (x + y)"
| "fadd PInf NInf = NaN"
| "fadd NInf PInf = NaN"
| "fadd PInf y = PInf"
| "fadd x PInf = PInf"
| "fadd NInf y = NInf"
| "fadd x NInf = NInf"

definition fsub :: "npfloat \<Rightarrow> npfloat \<Rightarrow> npfloat" where
  "fsub x y = fadd x (fneg y)"

fun fmul :: "npfloat \<Rightarrow> npfloat \<Rightarrow> npfloat" where
  "fmul NaN y = NaN"
| "fmul x NaN = NaN"
| "fmul (Fin x) (Fin y) = Fin (x * y)"
| "fmul (Fin x) PInf = (if x = 0 then NaN else if 0 < x then PInf else NInf)"
| "fmul (Fin x) NInf = (if x = 0 then NaN else if 0 < x then NInf else PInf)"
| "fmul PInf (Fin y) = (if y = 0 then NaN else if 0 < y then PInf else NInf)"
| "fmul NInf (Fin y) = (if y = 0 then NaN else if 0 < y then NInf else PInf)"
| "fmul PInf PInf = PInf"
| "fmul PInf NInf = NInf"
| "fmul NInf PInf = NInf"
| "fmul NInf NInf = PInf"

text \<open>Division: a finite nonzero value over zero is an infinity, zero over zero is NaN.\<close>

fun fdiv :: "npfloat \<Rightarrow> npfloat \<Rightarrow> npfloat" where
  "fdiv NaN y = NaN"
| "fdiv x NaN = NaN"
| "fdiv (Fin x) (Fin y) =
     (if y = 0 then (if x = 0 then NaN else if 0 < x then PInf else NInf) else Fin (x / y))"
| "fdiv (Fin x) PInf = Fin 0"
| "fdiv (Fin x) NInf = Fin 0"
| "fdiv PInf (Fin y) = (if 0 \<le> y then PInf else NInf)"
| "fdiv NInf (Fin y) = (if 0 \<le> y then NInf else PInf)"
| "fdiv PInf PInf = NaN"
| "fdiv PInf NInf = NaN"
| "fdiv NInf PInf = NaN"
| "fdiv NInf NInf = NaN"

text \<open>\<^verbatim>\<open>np.sqrt\<close>: NaN (and a warning) on a negative argument.\<close>

fun fsqrt :: "npfloat \<Rightarrow> npfloat" where
  "fsqrt (Fin x) = (if x < 0 then NaN else Fin (sqrt x))"
| "fsqrt PInf = PInf"
| "fsqrt NInf = NaN"
| "fsqrt NaN = NaN"

text \<open>The comparison \<^verbatim>\<open>==\<close> of two floats: NaN equals nothing, itself included.\<close>

definition np_eq :: "npfloat \<Rightarrow> npfloat \<Rightarrow> bool" where
  "np_eq x y = (x \<noteq> NaN \<and> y \<noteq> NaN \<and> x = y)"

subsection \<open>Reductions along the time axis\<close>

text \<open>
  One entity (a pixel, or a zone) owns one series along axis 2; the reductions
  \<^verbatim>\<open>np.nansum\<close>, \<^verbatim>\<open>np.nanmean\<close>, \<^verbatim>\<open>np.nanstd\<close> with \<^verbatim>\<open>axis=2\<close> act on each
  series on its own, so they are modelled on one series, a list.
\<close>

fun fsum :: "npfloat list \<Rightarrow> npfloat" where
  "fsum [] = Fin 0"
| "fsum (x # xs) = fadd x (fsum xs)"

definition valid :: "npfloat list \<Rightarrow> npfloat list" where
  "valid xs = filter (\<lambda>x. x \<noteq> NaN) xs"

definition nansum :: "npfloat list \<Rightarrow> npfloat" where
  "nansum xs = fsum (valid xs)"

definition nanmean :: "npfloat list \<Rightarrow> npfloat" where
  "nanmean xs = fdiv (nansum xs) (Fin (real (length (valid xs))))"

text \<open>
  \<^verbatim>\<open>np.nanstd\<close> (ddof = 0): the mean of the valid entries is subtracted from them, the
  squares are summed and divided by the number of valid entries.
\<close>

definition nanvar :: "npfloat list \<Rightarrow> npfloat" where
  "nanvar xs =
     (let avg = nanmean xs;
          sqr = map (\<lambda>x. fmul (fsub x avg) (fsub x avg)) (valid xs)
      in fdiv (fsum sqr) (Fin (real (length (valid xs)))))"

definition nanstd :: "npfloat list \<Rightarrow> npfloat" where
  "nanstd xs = fsqrt (nanvar xs)"

section \<open>Pixel-wise trend raster: \<^verbatim>\<open>RasterLinModel\<close>\<close>

datatype error = AssertionError | IndexError | ValueError | MaskError

text \<open>
  A band of the input raster as the raster source hands it over: its pixel values (the 2-D
  array in row-major order; every step below is element-wise, so the shape plays no role)
  and the result of \<^verbatim>\<open>GetNoDataValue()\<close>, which is \<^verbatim>\<open>None\<close> when no sentinel is
  declared.  The bands are of a floating-point type, as the greenness and temperature
  medians are.
\<close>

record raster_band =
  pixels :: "npfloat list"
  nodata :: "npfloat option"

text \<open>\<^verbatim>\<open>years = list(range(start_year+1, end_year+1, 3))\<close> and the offsets \<^verbatim>\<open>since\<close>.\<close>

definition years :: "int \<Rightarrow> int \<Rightarrow> int list" where
  "years start_year end_year =
     map (\<lambda>k. start_year + 1 + 3 * int k) [0 ..< nat ((end_year - start_year + 2) div 3)]"

definition since :: "int \<Rightarrow> int \<Rightarrow> int list" where
  "since start_year end_year = map (\<lambda>year. year - start_year) (years start_year end_year)"

text \<open>\<^verbatim>\<open>arr == nodata\<close>, element by element; a comparison with \<^verbatim>\<open>None\<close> is nowhere true.\<close>

definition eq_nodata :: "npfloat list \<Rightarrow> npfloat option \<Rightarrow> bool list" where
  "eq_nodata arr nd = map (\<lambda>v. case nd of None \<Rightarrow> False | Some s \<Rightarrow> np_eq v s) arr"

text \<open>\<^verbatim>\<open>a[mask] = np.nan\<close>: the entries under the mask are overwritten.\<close>

definition set_nan :: "npfloat list \<Rightarrow> bool list \<Rightarrow> npfloat list" where
  "set_nan a msk = map (\<lambda>(v, m). if m then NaN else v) (zip a msk)"

text \<open>
  The body of the band loop (lines 122 to 132).  The second mask is computed from
  \<^verbatim>\<open>arr\<close> after the first assignment has overwritten it.
\<close>

definition read_band :: "int \<Rightarrow> raster_band \<Rightarrow> npfloat list \<times> npfloat list" where
  "read_band year b =
     (let arr = pixels b;
          time_arr = replicate (length arr) (Fin (real_of_int year));
          arr1 = set_nan arr (eq_nodata arr (nodata b));
          time_arr1 = set_nan time_arr (eq_nodata arr1 (nodata b))
      in (arr1, time_arr1))"

text \<open>
  The band loop: \<^verbatim>\<open>since[band]\<close> raises IndexError when the raster has more bands than
  the years give offsets.  It returns \<^verbatim>\<open>band_data\<close> and \<^verbatim>\<open>time_data\<close>, one array
  per band.
\<close>

fun band_loop ::
  "int list \<Rightarrow> nat \<Rightarrow> raster_band list \<Rightarrow> error + (npfloat list list \<times> npfloat list list)" where
  "band_loop sn band [] = Inr ([], [])"
| "band_loop sn band (b # bs) =
     (if band < length sn then
        (let (arr, time_arr) = read_band (sn ! band) b in
         case band_loop sn (Suc band) bs of
           Inl e \<Rightarrow> Inl e
         | Inr (band_data, time_data) \<Rightarrow> Inr (arr # band_data, time_arr # time_data))
      else Inl IndexError)"

text \<open>
  \<^verbatim>\<open>np.dstack\<close> of the per-band arrays: the result is read here entity by entity, the
  series of pixel \<open>p\<close> being the \<open>p\<close>-th value of every band.  An empty list of arrays and
  arrays of different sizes raise ValueError.
\<close>

definition dstack :: "npfloat list list \<Rightarrow> error + npfloat list list" where
  "dstack arrs =
     (case arrs of
        [] \<Rightarrow> Inl ValueError
      | a # rest \<Rightarrow>
          if list_all (\<lambda>b. length b = length a) rest
          then Inr (map (\<lambda>p. map (\<lambda>b. b ! p) arrs) [0 ..< length a])
          else Inl ValueError)"

subsection \<open>The statistics of one entity\<close>

text \<open>
  \<^verbatim>\<open>scipy.stats.t.sf\<close> is a library function; its values at finite arguments are a
  parameter \<open>sf\<close> (argument, degrees of freedom).  At the special values it returns the
  limits of a survival function, and NaN for a NaN argument or for degrees of freedom that
  are not positive.
\<close>

definition t_sf :: "(real \<Rightarrow> nat \<Rightarrow> real) \<Rightarrow> npfloat \<Rightarrow> int \<Rightarrow> npfloat" where
  "t_sf sf x df =
     (if df \<le> 0 then NaN
      else case x of Fin r \<Rightarrow> Fin (sf r (nat df)) | PInf \<Rightarrow> Fin 0 | NInf \<Rightarrow> Fin 1 | NaN \<Rightarrow> NaN)"

text \<open>
  The survival function of Student's t distribution with \<open>df\<close> degrees of freedom, in the
  closed form for an integer \<open>df\<close> (Abramowitz and Stegun 26.7.3 and 26.7.4); for
  \<open>df = 1\<close> it is \<open>1/2 - arctan t / pi\<close>.  It is what \<open>sf\<close> stands for in a run of the
  program.
\<close>

definition student_t_sf :: "real \<Rightarrow> nat \<Rightarrow> real" where
  "student_t_sf t df =
     (let th = arctan (t / sqrt (real df));
          A = (if odd df
               then 2 / pi * (th + sin th * cos th *
                      (\<Sum>j<(df - 1) div 2. (\<Prod>i=1..j. 2 * real i / (2 * real i + 1)) * cos th ^ (2 * j)))
               else sin th *
                      (\<Sum>j<df div 2. (\<Prod>i=1..j. (2 * real i - 1) / (2 * real i)) * cos th ^ (2 * j)))
      in (1 - A) / 2)"

record trend =
  cov :: npfloat
  cor :: npfloat
  slope :: npfloat
  intercept :: npfloat
  tstats :: npfloat
  stderr :: npfloat
  pval :: npfloat

text \<open>
  Lines 139 to 160 of \<^verbatim>\<open>RasterLinModel\<close>, which are lines 178 to 196 of
  \<^verbatim>\<open>AddRasterStatistics\<close> (\<^verbatim>\<open>CollectCensusTractStats3.py\<close>) too, for one entity:
  \<open>n\<close> is the depth of the stack (\<^verbatim>\<open>shape[2]\<close>), \<open>time_data\<close> and \<open>band_data\<close> are
  the entity's series.
\<close>

definition lin_model :: "(real \<Rightarrow> nat \<Rightarrow> real) \<Rightarrow> nat \<Rightarrow> npfloat list \<Rightarrow> npfloat list \<Rightarrow> trend" where
  "lin_model sf n time_data band_data =
     (let xmean = nanmean time_data;
          ymean = nanmean band_data;
          xstd = nanstd time_data;
          ystd = nanstd band_data;
          cov = fdiv (nansum (map (\<lambda>(t, v). fmul (fsub t xmean) (fsub v ymean))
                                  (zip time_data band_data)))
                     (Fin (real n));
          cor = fdiv cov (fmul xstd ystd);
          slope = fdiv cov (fmul xstd xstd);
          intercept = fsub ymean (fmul xmean slope);
          tstats = fdiv (fmul cor (fsqrt (Fin (real_of_int (int n - 2)))))
                        (fsqrt (fsub (Fin 1) (fmul cor cor)));
          stderr = fdiv slope tstats;
          pval = fmul (t_sf sf tstats (int n - 2)) (Fin 2)
      in \<lparr>cov = cov, cor = cor, slope = slope, intercept = intercept,
          tstats = tstats, stderr = stderr, pval = pval\<rparr>)"

subsection \<open>The output raster\<close>

record out_band =
  band_nodata :: npfloat
  description :: string
  band_array :: "npfloat list"

definition stat_labs :: "string list" where
  "stat_labs = [''covaraince'', ''correlation'', ''slope'', ''intercept'', ''tstat'',
                ''stderr'', ''pval'']"

definition stat_list :: "trend list \<Rightarrow> npfloat list list" where
  "stat_list res = [map cov res, map cor res, map slope res, map intercept res,
                    map tstats res, map stderr res, map pval res]"

text \<open>
  The in-memory dataset is created with seven bands; the loop over
  \<^verbatim>\<open>zip(stat_list, stat_labs)\<close> fills band \<open>b\<close> with its no-data value, description and
  array.
\<close>

definition write_bands :: "npfloat list list \<Rightarrow> string list \<Rightarrow> out_band list" where
  "write_bands stats labs =
     map (\<lambda>(stat, lab). \<lparr>band_nodata = Fin (- 9999.0), description = lab, band_array = stat\<rparr>)
         (zip stats labs)"

text \<open>
  \<^verbatim>\<open>RasterLinModel\<close> up to the hand-over of the in-memory dataset to the grid alignment
  (\<^verbatim>\<open>WarpToMatchResolution\<close>, which clips and stores it).  The two \<^verbatim>\<open>isfile\<close>
  assertions are the booleans \<open>raster_isfile\<close> and \<open>cutline_isfile\<close>.
\<close>

definition RasterLinModel ::
  "(real \<Rightarrow> nat \<Rightarrow> real) \<Rightarrow> bool \<Rightarrow> bool \<Rightarrow> raster_band list \<Rightarrow> int \<Rightarrow> int \<Rightarrow> error + out_band list" where
  "RasterLinModel sf raster_isfile cutline_isfile ds start_year end_year =
     (if \<not> raster_isfile then Inl AssertionError
      else case band_loop (since start_year end_year) 0 ds of
        Inl e \<Rightarrow> Inl e
      | Inr (band_data, time_data) \<Rightarrow>
          (case dstack band_data of
             Inl e \<Rightarrow> Inl e
           | Inr band_stack \<Rightarrow>
               (case dstack time_data of
                  Inl e \<Rightarrow> Inl e
                | Inr time_stack \<Rightarrow>
                    (let n = length band_data;
                         res = map (\<lambda>(ts, vs). lin_model sf n ts vs) (zip time_stack band_stack)
                     in if \<not> cutline_isfile then Inl AssertionError
                        else Inr (write_bands (stat_list res) stat_labs)))))"

section \<open>Zonal trend statistics: \<^verbatim>\<open>AddRasterStatistics\<close> of \<^verbatim>\<open>CollectCensusTractStats3.py\<close>\<close>

text \<open>
  The vector layer: every feature has its zone key (the field \<^verbatim>\<open>zcta\<close>) and its numeric
  fields; a field that was created and never set is null (\<open>None\<close>).
\<close>

record 'k feature =
  key :: 'k
  attrs :: "string \<rightharpoonup> npfloat"

text \<open>
  \<^verbatim>\<open>layer.SetAttributeFilter(f"zcta = '{tract_id}'")\<close> followed by
  \<^verbatim>\<open>for feat in layer: feat.SetField(name, value) ...; layer.SetFeature(feat)\<close>:
  the features whose key is \<open>tract_id\<close> get the listed fields, in the order of the calls.
  \<^verbatim>\<open>SetField\<close> with the value \<^verbatim>\<open>None\<close> sets the field to null.
\<close>

definition SetFields :: "(string \<times> npfloat option) list \<Rightarrow> 'k feature \<Rightarrow> 'k feature" where
  "SetFields kvs feat = feat\<lparr>attrs := fold (\<lambda>(name, v) m. m(name := v)) kvs (attrs feat)\<rparr>"

definition write_features :: "'k \<Rightarrow> (string \<times> npfloat option) list \<Rightarrow> 'k feature list \<Rightarrow> 'k feature list" where
  "write_features tract_id kvs layer =
     map (\<lambda>feat. if key feat = tract_id then SetFields kvs feat else feat) layer"

text \<open>\<^verbatim>\<open>np.nanmedian\<close> of one band of the clipped raster.\<close>

fun fle :: "npfloat \<Rightarrow> npfloat \<Rightarrow> bool" where
  "fle NInf y = True"
| "fle x PInf = True"
| "fle (Fin x) (Fin y) = (x \<le> y)"
| "fle x y = False"

fun insort_fl :: "npfloat \<Rightarrow> npfloat list \<Rightarrow> npfloat list" where
  "insort_fl x [] = [x]"
| "insort_fl x (y # ys) = (if fle x y then x # y # ys else y # insort_fl x ys)"

definition sort_fl :: "npfloat list \<Rightarrow> npfloat list" where
  "sort_fl xs = foldr insort_fl xs []"

definition nanmedian :: "npfloat list \<Rightarrow> npfloat" where
  "nanmedian xs =
     (let v = sort_fl (valid xs); k = length v
      in if k = 0 then NaN
         else if odd k then v ! (k div 2)
         else fdiv (fadd (v ! (k div 2 - 1)) (v ! (k div 2))) (Fin 2))"

text \<open>Python indexing of a sequence by an integer: negative indices count from the end.\<close>

definition py_get :: "'a list \<Rightarrow> int \<Rightarrow> error + 'a" where
  "py_get xs i =
     (if 0 \<le> i \<and> i < int (length xs) then Inr (xs ! nat i)
      else if i < 0 \<and> - int (length xs) \<le> i then Inr (xs ! nat (int (length xs) + i))
      else Inl IndexError)"

text \<open>
  The rasters and the clip: \<^verbatim>\<open>rasterio.mask.mask(src, filt_gdf.geometry, crop=True)\<close>
  is a collaborator; for the features of one key it returns the clipped array (one pixel
  list per band) or raises.  The no-data values are those of band 1.  The classification
  raster \<^verbatim>\<open>gsc_src\<close> has its pixel width and height (its transform); the function never
  reads them.
\<close>

record 'k sources =
  mask_ndvi :: "'k \<Rightarrow> error + npfloat list list"
  mask_lst :: "'k \<Rightarrow> error + npfloat list list"
  mask_gsc :: "'k \<Rightarrow> error + int list list"
  ndvi_nodata :: "npfloat option"
  lst_nodata :: "npfloat option"
  gsc_pixel_width :: real
  gsc_pixel_height :: real

definition years3 :: "nat list" where
  "years3 = [1990 ..< 2020]"

definition since3 :: "nat list" where
  "since3 = map (\<lambda>year. year - 1990) years3"

definition time_data3 :: "npfloat list" where
  "time_data3 = map (\<lambda>year. Fin (real year)) since3"

text \<open>
  \<^verbatim>\<open>for year in since: np.nanmedian(in_mem[year,:,:])\<close>: IndexError when the clipped
  raster has no band \<open>year\<close>.
\<close>

fun median_loop :: "npfloat list list \<Rightarrow> nat list \<Rightarrow> error + npfloat list" where
  "median_loop in_mem [] = Inr []"
| "median_loop in_mem (year # ys) =
     (if year < length in_mem then
        (case median_loop in_mem ys of
           Inl e \<Rightarrow> Inl e
         | Inr ms \<Rightarrow> Inr (nanmedian (in_mem ! year) # ms))
      else Inl IndexError)"

definition stat_labs3 :: "string list" where
  "stat_labs3 = [''cov'', ''corr'', ''int'', ''med'', ''pval'', ''slope'', ''stderr'', ''tstat'']"

text \<open>
  The trend of one series and the eight \<^verbatim>\<open>SetField\<close> calls (lines 178 to 210).
  \<open>n\<close> is \<^verbatim>\<open>time_data.shape[2]\<close>.  \<^verbatim>\<open>band_data[0,0,band_idx]\<close> is evaluated inside
  the loop over the features, so it raises only when a feature matches.
\<close>

definition write_trend ::
  "(real \<Rightarrow> nat \<Rightarrow> real) \<Rightarrow> int \<Rightarrow> 'k \<Rightarrow> npfloat list \<Rightarrow> string \<Rightarrow> 'k feature list
     \<Rightarrow> error + 'k feature list" where
  "write_trend sf band_idx tract_id band_data ts_rast_lab layer =
     (let n = length time_data3;
          st = lin_model sf n time_data3 band_data
      in if list_ex (\<lambda>feat. key feat = tract_id) layer then
           (case py_get band_data band_idx of
              Inl e \<Rightarrow> Inl e
            | Inr med \<Rightarrow>
                Inr (write_features tract_id
                      [(stat_labs3 ! 0 @ ts_rast_lab, Some (cov st)),
                       (stat_labs3 ! 1 @ ts_rast_lab, Some (cor st)),
                       (stat_labs3 ! 2 @ ts_rast_lab, Some (intercept st)),
                       (stat_labs3 ! 3 @ ts_rast_lab, Some med),
                       (stat_labs3 ! 4 @ ts_rast_lab, Some (pval st)),
                       (stat_labs3 ! 5 @ ts_rast_lab, Some (slope st)),
                       (stat_labs3 ! 6 @ ts_rast_lab, Some (stderr st)),
                       (stat_labs3 ! 7 @ ts_rast_lab, Some (tstats st))] layer))
         else Inr layer)"

text \<open>
  The class areas (lines 215 to 224): the pixels of the clipped classification raster equal
  to the class are counted, the count times 5 times 5 is written as a float.
\<close>

definition class_area :: "int list list \<Rightarrow> int \<Rightarrow> int" where
  "class_area in_mem_gsc i = int (length (filter (\<lambda>v. v = i) (concat in_mem_gsc))) * 5 * 5"

fun write_areas :: "'k \<Rightarrow> int list list \<Rightarrow> (int \<times> string) list \<Rightarrow> 'k feature list \<Rightarrow> 'k feature list" where
  "write_areas tract_id in_mem_gsc [] layer = layer"
| "write_areas tract_id in_mem_gsc ((i, class_lab) # rest) layer =
     write_areas tract_id in_mem_gsc rest
       (write_features tract_id
          [(class_lab @ ''Area'', Some (Fin (real_of_int (class_area in_mem_gsc i))))] layer)"

text \<open>The body of the loop over the zone keys after a successful clip (lines 129 to 224).\<close>

definition zone_body ::
  "(real \<Rightarrow> nat \<Rightarrow> real) \<Rightarrow> 'k sources \<Rightarrow> int \<Rightarrow> 'k
     \<Rightarrow> npfloat list list \<Rightarrow> npfloat list list \<Rightarrow> int list list
     \<Rightarrow> 'k feature list \<Rightarrow> error + 'k feature list" where
  "zone_body sf src band_idx tract_id in_mem_ndvi in_mem_lst in_mem_gsc layer =
     (let ndvi = map (\<lambda>a. set_nan a (eq_nodata a (ndvi_nodata src))) in_mem_ndvi;
          lst = map (\<lambda>a. set_nan a (eq_nodata a (lst_nodata src))) in_mem_lst
      in case median_loop ndvi since3 of
           Inl e \<Rightarrow> Inl e
         | Inr ndvi_band_data \<Rightarrow>
             (case median_loop lst since3 of
                Inl e \<Rightarrow> Inl e
              | Inr lst_band_data \<Rightarrow>
                  (case write_trend sf band_idx tract_id ndvi_band_data ''NDVI'' layer of
                     Inl e \<Rightarrow> Inl e
                   | Inr layer1 \<Rightarrow>
                       (case write_trend sf band_idx tract_id lst_band_data ''LST'' layer1 of
                          Inl e \<Rightarrow> Inl e
                        | Inr layer2 \<Rightarrow>
                            Inr (write_areas tract_id in_mem_gsc
                                   [(1, ''green''), (2, ''water''), (3, ''urban'')] layer2)))))"

text \<open>
  The loop over \<^verbatim>\<open>tract_ids\<close> (lines 114 to 224).  The three clips are inside
  \<^verbatim>\<open>try\<close>; whatever one of them raises is caught and the loop goes on with the next key.
  An error of the body is not caught and ends the run.
\<close>

fun zone_loop ::
  "(real \<Rightarrow> nat \<Rightarrow> real) \<Rightarrow> 'k sources \<Rightarrow> int \<Rightarrow> 'k list \<Rightarrow> 'k feature list
     \<Rightarrow> error + 'k feature list" where
  "zone_loop sf src band_idx [] layer = Inr layer"
| "zone_loop sf src band_idx (tract_id # rest) layer =
     (case mask_ndvi src tract_id of
        Inl e \<Rightarrow> zone_loop sf src band_idx rest layer
      | Inr in_mem_ndvi \<Rightarrow>
          (case mask_lst src tract_id of
             Inl e \<Rightarrow> zone_loop sf src band_idx rest layer
           | Inr in_mem_lst \<Rightarrow>
               (case mask_gsc src tract_id of
                  Inl e \<Rightarrow> zone_loop sf src band_idx rest layer
                | Inr in_mem_gsc \<Rightarrow>
                    (case zone_body sf src band_idx tract_id in_mem_ndvi in_mem_lst in_mem_gsc layer of
                       Inl e \<Rightarrow> Inl e
                     | Inr layer' \<Rightarrow> zone_loop sf src band_idx rest layer'))))"

text \<open>
  \<^verbatim>\<open>AddRasterStatistics\<close>: the three \<^verbatim>\<open>isfile\<close> assertions, then the loop over the keys
  of all features of the shapefile, in file order (\<^verbatim>\<open>gdf[filt_field_name].tolist()\<close>).
\<close>

definition AddRasterStatistics3 ::
  "(real \<Rightarrow> nat \<Rightarrow> real) \<Rightarrow> bool \<Rightarrow> 'k sources \<Rightarrow> int \<Rightarrow> 'k feature list
     \<Rightarrow> error + 'k feature list" where
  "AddRasterStatistics3 sf files_exist src band_idx layer =
     (if \<not> files_exist then Inl AssertionError
      else zone_loop sf src band_idx (map key layer) layer)"

section \<open>Zonal snapshot statistics: \<^verbatim>\<open>AddRasterStatistics\<close> of \<^verbatim>\<open>CollectCensusTractStats2.py\<close>\<close>

text \<open>
  The collaborators of the older pipeline, for a dissolved geometry of type \<open>'g\<close>:
  \<^verbatim>\<open>dissolve\<close> of the features of one key; \<^verbatim>\<open>zonal_stats\<close> with the statistic
  \<^verbatim>\<open>median\<close> on a raster (the median, or \<^verbatim>\<open>None\<close> when no pixel counts); the values of
  the classification raster at the pixels that the geometry touches.  Each may raise.
  A statistics raster has its description and, for every band, the band description and
  the zonal median on that band.  The pixel width and height of the classification raster
  are those of \<^verbatim>\<open>greenSpace_gt\<close>, which goes into the affine transform of
  \<^verbatim>\<open>zonal_stats\<close> and nowhere else.
\<close>

record 'g stats_raster =
  rast_description :: string
  rast_bands :: "(string \<times> ('g \<Rightarrow> error + npfloat option)) list"

record ('k, 'g) sources2 =
  dissolve :: "'k \<Rightarrow> error + 'g"
  median_ndvi_snap :: "'g \<Rightarrow> error + npfloat option"
  median_lst_snap :: "'g \<Rightarrow> error + npfloat option"
  touched_classes :: "'g \<Rightarrow> error + int list"
  tif_files :: "'g stats_raster list"
  greenSpace_pixel_width :: real
  greenSpace_pixel_height :: real

text \<open>
  \<^verbatim>\<open>zonal_stats(..., stats=['sum'], nodata=0)\<close> on a boolean array: the pixels equal to
  the no-data value 0 (False) are masked; the sum of the rest is returned as a float, and
  \<^verbatim>\<open>None\<close> when nothing is left.
\<close>

definition zonal_sum :: "bool list \<Rightarrow> real option" where
  "zonal_sum indx =
     (let kept = filter (\<lambda>b. b) indx
      in if kept = [] then None else Some (real (length kept)))"

text \<open>The loop \<^verbatim>\<open>for i in range(3)\<close> that fills \<^verbatim>\<open>total_area_list\<close> (lines 145 to 155).\<close>

definition total_area_list :: "int list \<Rightarrow> real list" where
  "total_area_list greenSpace =
     map (\<lambda>i. case zonal_sum (map (\<lambda>v. v = int i + 1) greenSpace) of
                 None \<Rightarrow> 0
               | Some total_green_space \<Rightarrow> total_green_space)
         [0 ..< 3]"

text \<open>\<^verbatim>\<open>'NDVI' in rast_ds.GetDescription()\<close>.\<close>

fun contains :: "string \<Rightarrow> string \<Rightarrow> bool" where
  "contains sub [] = (sub = [])"
| "contains sub (c # cs) = (take (length sub) (c # cs) = sub \<or> contains sub cs)"

definition field_header :: "string \<Rightarrow> string" where
  "field_header desc = (if contains ''NDVI'' desc then ''ndvi_'' else ''lst_'')"

text \<open>The loop over the bands of one statistics raster (lines 183 to 195).\<close>

fun stats_band_loop ::
  "'k \<Rightarrow> 'g \<Rightarrow> string \<Rightarrow> (string \<times> ('g \<Rightarrow> error + npfloat option)) list \<Rightarrow> 'k feature list
     \<Rightarrow> error + 'k feature list" where
  "stats_band_loop tract_id geom header [] layer = Inr layer"
| "stats_band_loop tract_id geom header ((bandDesc, zonal_median) # rest) layer =
     (case zonal_median geom of
        Inl e \<Rightarrow> Inl e
      | Inr median \<Rightarrow>
          stats_band_loop tract_id geom header rest
            (write_features tract_id [(header @ take 5 bandDesc, median)] layer))"

fun tif_loop :: "'k \<Rightarrow> 'g \<Rightarrow> 'g stats_raster list \<Rightarrow> 'k feature list \<Rightarrow> error + 'k feature list" where
  "tif_loop tract_id geom [] layer = Inr layer"
| "tif_loop tract_id geom (rast_ds # rest) layer =
     (case stats_band_loop tract_id geom (field_header (rast_description rast_ds))
             (rast_bands rast_ds) layer of
        Inl e \<Rightarrow> Inl e
      | Inr layer' \<Rightarrow> tif_loop tract_id geom rest layer')"

text \<open>
  The body of the loop over the keys (lines 131 to 195).  Nothing here is inside
  \<^verbatim>\<open>try\<close>: an error of a collaborator ends the run.
\<close>

definition zone_body2 ::
  "('k, 'g) sources2 \<Rightarrow> 'k \<Rightarrow> 'k feature list \<Rightarrow> error + 'k feature list" where
  "zone_body2 src tract_id layer =
     (case dissolve src tract_id of
        Inl e \<Rightarrow> Inl e
      | Inr dissolved_gdf \<Rightarrow>
     (case median_ndvi_snap src dissolved_gdf of
        Inl e \<Rightarrow> Inl e
      | Inr median_ndvi \<Rightarrow>
     (case median_lst_snap src dissolved_gdf of
        Inl e \<Rightarrow> Inl e
      | Inr median_lst \<Rightarrow>
     (case touched_classes src dissolved_gdf of
        Inl e \<Rightarrow> Inl e
      | Inr greenSpace \<Rightarrow>
          (let tal = total_area_list greenSpace;
               layer1 = write_features tract_id
                 [(''medianNDVI'', median_ndvi),
                  (''medianLST'', median_lst),
                  (''greenArea'', Some (Fin (tal ! 0 * 5 * 5))),
                  (''waterArea'', Some (Fin (tal ! 1 * 5 * 5))),
                  (''urbanArea'', Some (Fin (tal ! 2 * 5 * 5)))] layer
           in tif_loop tract_id dissolved_gdf (tif_files src) layer1)))))"

fun zone_loop2 :: "('k, 'g) sources2 \<Rightarrow> 'k list \<Rightarrow> 'k feature list \<Rightarrow> error + 'k feature list" where
  "zone_loop2 src [] layer = Inr layer"
| "zone_loop2 src (tract_id # rest) layer =
     (case zone_body2 src tract_id layer of
        Inl e \<Rightarrow> Inl e
      | Inr layer' \<Rightarrow> zone_loop2 src rest layer')"

definition AddRasterStatistics2 ::
  "bool \<Rightarrow> ('k, 'g) sources2 \<Rightarrow> 'k feature list \<Rightarrow> error + 'k feature list" where
  "AddRasterStatistics2 files_exist src layer =
     (if \<not> files_exist then Inl AssertionError
      else zone_loop2 src (map key layer) layer)"

section \<open>Notions used in the statements\<close>

text \<open>
  The two series of the entity (pixel) \<open>p\<close> of a raster \<open>ds\<close>: the offsets of its layers,
  and its values with the no-data sentinel of each band replaced by NaN.
\<close>

definition entity_times :: "int list \<Rightarrow> raster_band list \<Rightarrow> npfloat list" where
  "entity_times sn ds = map (\<lambda>j. Fin (real_of_int (sn ! j))) [0 ..< length ds]"

definition entity_values :: "raster_band list \<Rightarrow> nat \<Rightarrow> npfloat list" where
  "entity_values ds p = map (\<lambda>b. set_nan (pixels b) (eq_nodata (pixels b) (nodata b)) ! p) ds"

text \<open>
  \<open>same_except k L L'\<close>: the layer \<open>L'\<close> has the features of \<open>L\<close> with their keys, changed
  at most where the key is \<open>k\<close>.  \<open>clip_fails src k\<close>: one of the three clips raises for the
  key \<open>k\<close>.  \<open>writer_of k W L K\<close>: on every layer with the keys of \<open>L\<close>, \<open>W\<close> succeeds and
  writes the fields \<open>K\<close> on the features of key \<open>k\<close>.
\<close>

definition same_except :: "'k \<Rightarrow> 'k feature list \<Rightarrow> 'k feature list \<Rightarrow> bool" where
  "same_except k L L' =
     (length L' = length L \<and>
      (\<forall>j<length L. key (L' ! j) = key (L ! j) \<and> (key (L ! j) \<noteq> k \<longrightarrow> L' ! j = L ! j)))"

definition clip_fails :: "'k sources \<Rightarrow> 'k \<Rightarrow> bool" where
  "clip_fails src k =
     (isl (mask_ndvi src k) \<or> isl (mask_lst src k) \<or> isl (mask_gsc src k))"

text \<open>
  \<open>clips_ok src k\<close>: the three clips succeed for the key \<open>k\<close> and the two clipped time
  series have the 30 bands that the loop over \<^verbatim>\<open>since\<close> reads.
\<close>

definition clips_ok :: "'k sources \<Rightarrow> 'k \<Rightarrow> bool" where
  "clips_ok src k =
     (case mask_ndvi src k of
        Inl e \<Rightarrow> False
      | Inr in_mem_ndvi \<Rightarrow>
          (case mask_lst src k of
             Inl e \<Rightarrow> False
           | Inr in_mem_lst \<Rightarrow>
               (case mask_gsc src k of
                  Inl e \<Rightarrow> False
                | Inr in_mem_gsc \<Rightarrow> 30 \<le> length in_mem_ndvi \<and> 30 \<le> length in_mem_lst)))"

definition writer_of ::
  "'k \<Rightarrow> ('k feature list \<Rightarrow> error + 'k feature list) \<Rightarrow> 'k feature list
     \<Rightarrow> (string \<times> npfloat option) list \<Rightarrow> bool" where
  "writer_of k W L K =
     (\<forall>L0. map key L0 = map key L \<longrightarrow> W L0 = Inr (write_features k K L0))"

section \<open>Auxiliary facts\<close>

lemma eq_nodata_set_nan:
  "eq_nodata (set_nan arr (eq_nodata arr nd)) nd = replicate (length arr) False"
  by (induction arr) (auto simp: eq_nodata_def set_nan_def np_eq_def split: option.splits)

lemma set_nan_no_mask: "length msk = length a \<Longrightarrow> \<forall>m\<in>set msk. \<not> m \<Longrightarrow> set_nan a msk = a"
  by (induction a arbitrary: msk) (auto simp: set_nan_def length_Suc_conv)

lemma read_band_time:
  "snd (read_band year b) = replicate (length (pixels b)) (Fin (real_of_int year))"
proof -
  have "set_nan (replicate (length (pixels b)) (Fin (real_of_int year)))
          (replicate (length (pixels b)) False)
        = replicate (length (pixels b)) (Fin (real_of_int year))"
    by (rule set_nan_no_mask) simp_all
  then show ?thesis
    by (simp add: read_band_def Let_def eq_nodata_set_nan)
qed

lemma lin_model_cov:
  "cov (lin_model sf n T B) =
     fdiv (nansum (map (\<lambda>(t, v). fmul (fsub t (nanmean T)) (fsub v (nanmean B))) (zip T B)))
          (Fin (real n))"
  by (simp add: lin_model_def Let_def)

lemma lin_model_cor:
  "cor (lin_model sf n T B) = fdiv (cov (lin_model sf n T B)) (fmul (nanstd T) (nanstd B))"
  by (simp add: lin_model_def Let_def)

lemma lin_model_slope:
  "slope (lin_model sf n T B) = fdiv (cov (lin_model sf n T B)) (fmul (nanstd T) (nanstd T))"
  by (simp add: lin_model_def Let_def)

lemma lin_model_intercept:
  "intercept (lin_model sf n T B) =
     fsub (nanmean B) (fmul (nanmean T) (slope (lin_model sf n T B)))"
  by (simp add: lin_model_def Let_def)

lemma lin_model_tstats:
  "tstats (lin_model sf n T B) =
     fdiv (fmul (cor (lin_model sf n T B)) (fsqrt (Fin (real_of_int (int n - 2)))))
          (fsqrt (fsub (Fin 1) (fmul (cor (lin_model sf n T B)) (cor (lin_model sf n T B)))))"
  by (simp add: lin_model_def Let_def)

lemma lin_model_stderr:
  "stderr (lin_model sf n T B) = fdiv (slope (lin_model sf n T B)) (tstats (lin_model sf n T B))"
  by (simp add: lin_model_def Let_def)

lemma lin_model_pval:
  "pval (lin_model sf n T B) = fmul (t_sf sf (tstats (lin_model sf n T B)) (int n - 2)) (Fin 2)"
  by (simp add: lin_model_def Let_def)


lemma fmul_NaN_right: "fmul x NaN = NaN"
  by (cases x) simp_all

lemma fdiv_Fin_nonzeroD:
  "fdiv a b = Fin r \<Longrightarrow> r \<noteq> 0 \<Longrightarrow> \<exists>c d. a = Fin c \<and> b = Fin d \<and> d \<noteq> 0"
  by (cases a; cases b) (auto split: if_splits)

lemma fmul_FinD: "fmul x y = Fin d \<Longrightarrow> \<exists>p q. x = Fin p \<and> y = Fin q \<and> d = p * q"
  by (cases x; cases y) (auto split: if_splits)

lemma unit_cor_slope_finite:
  assumes "cor (lin_model sf n T B) = Fin r" "r \<noteq> 0"
  shows "\<exists>s. slope (lin_model sf n T B) = Fin s"
proof -
  from assms obtain c d where cd: "cov (lin_model sf n T B) = Fin c"
      "fmul (nanstd T) (nanstd B) = Fin d" "d \<noteq> 0"
    using fdiv_Fin_nonzeroD[of "cov (lin_model sf n T B)" "fmul (nanstd T) (nanstd B)" r]
    by (auto simp: lin_model_cor)
  from fmul_FinD[OF cd(2)] obtain p q where pq: "nanstd T = Fin p" "nanstd B = Fin q" "d = p * q"
    by auto
  then have "p \<noteq> 0" using cd(3) by auto
  then show ?thesis by (simp add: lin_model_slope cd(1) pq(1))
qed

lemma unit_cor_pos:
  assumes n: "3 \<le> n" and c: "cor (lin_model sf n T B) = Fin 1"
  shows "tstats (lin_model sf n T B) = PInf"
    and "stderr (lin_model sf n T B) = Fin 0"
    and "pval (lin_model sf n T B) = Fin 0"
proof -
  have "0 < sqrt (real_of_int (int n - 2))" using n by simp
  then show t: "tstats (lin_model sf n T B) = PInf"
    using n by (simp add: lin_model_tstats c fsub_def)
  obtain s where "slope (lin_model sf n T B) = Fin s"
    using unit_cor_slope_finite[OF c] by auto
  then show "stderr (lin_model sf n T B) = Fin 0"
    by (simp add: lin_model_stderr t)
  show "pval (lin_model sf n T B) = Fin 0"
    using n by (simp add: lin_model_pval t t_sf_def)
qed

lemma unit_cor_neg:
  assumes n: "3 \<le> n" and c: "cor (lin_model sf n T B) = Fin (- 1)"
  shows "tstats (lin_model sf n T B) = NInf"
    and "stderr (lin_model sf n T B) = Fin 0"
    and "pval (lin_model sf n T B) = Fin 2"
proof -
  have "0 < sqrt (real_of_int (int n - 2))" using n by simp
  then show t: "tstats (lin_model sf n T B) = NInf"
    using n by (simp add: lin_model_tstats c fsub_def)
  obtain s where "slope (lin_model sf n T B) = Fin s"
    using unit_cor_slope_finite[OF c] by auto
  then show "stderr (lin_model sf n T B) = Fin 0"
    by (simp add: lin_model_stderr t)
  show "pval (lin_model sf n T B) = Fin 2"
    using n by (simp add: lin_model_pval t t_sf_def)
qed



lemma fold_SetField:
  "fold (\<lambda>(name, v) m. m(name := v)) kvs m name =
     (case map_of (rev kvs) name of None \<Rightarrow> m name | Some v \<Rightarrow> v)"
  by (induction kvs arbitrary: m) (auto split: option.splits)

lemma SetFields_twice: "SetFields kvs (SetFields kvs feat) = SetFields kvs feat"
proof -
  have "fold (\<lambda>(name, v) m. m(name := v)) kvs (fold (\<lambda>(name, v) m. m(name := v)) kvs m)
        = fold (\<lambda>(name, v) m. m(name := v)) kvs m" for m :: "string \<rightharpoonup> npfloat"
    by (rule ext) (simp add: fold_SetField split: option.splits)
  then show ?thesis by (simp add: SetFields_def)
qed

lemma key_SetFields: "key (SetFields kvs feat) = key feat"
  by (simp add: SetFields_def)

lemma attrs_SetFields:
  "attrs (SetFields kvs feat) name =
     (case map_of (rev kvs) name of None \<Rightarrow> attrs feat name | Some v \<Rightarrow> v)"
  by (simp add: SetFields_def fold_SetField)

lemma write_features_twice:
  "write_features k kvs (write_features k kvs L) = write_features k kvs L"
  by (induction L) (simp_all add: write_features_def key_SetFields SetFields_twice)

lemma length_write_features: "length (write_features k kvs L) = length L"
  by (simp add: write_features_def)

lemma map_key_write_features: "map key (write_features k kvs L) = map key L"
  by (induction L) (simp_all add: write_features_def key_SetFields)

lemma write_features_written:
  assumes "f \<in> set (write_features k kvs L)" "key f = k" "map_of (rev kvs) name = Some v"
  shows "attrs f name = v"
proof -
  from assms(1) obtain g where g: "g \<in> set L" "f = (if key g = k then SetFields kvs g else g)"
    by (auto simp: write_features_def)
  with assms(2) have "f = SetFields kvs g" by (auto split: if_splits)
  then show ?thesis by (simp add: attrs_SetFields assms(3))
qed

lemma write_features_nth:
  "j < length L \<Longrightarrow>
   write_features k kvs L ! j = (if key (L ! j) = k then SetFields kvs (L ! j) else L ! j)"
  by (simp add: write_features_def)

lemma same_except_refl: "same_except k L L"
  by (simp add: same_except_def)

lemma same_except_trans: "same_except k L L1 \<Longrightarrow> same_except k L1 L2 \<Longrightarrow> same_except k L L2"
  by (auto simp: same_except_def)

lemma same_except_write_features: "same_except k L (write_features k kvs L)"
  by (simp add: same_except_def write_features_nth length_write_features key_SetFields)

lemma same_except_write_trend:
  "write_trend sf i k bd lab L = Inr L' \<Longrightarrow> same_except k L L'"
  by (auto simp: write_trend_def Let_def same_except_refl same_except_write_features
      split: if_splits sum.splits)

lemma same_except_write_areas: "same_except k L (write_areas k gsc cls L)"
proof (induction cls arbitrary: L)
  case Nil
  then show ?case by (simp add: same_except_refl)
next
  case (Cons c cls)
  obtain i lab where c: "c = (i, lab)" by (cases c)
  show ?case
    unfolding c write_areas.simps
    by (rule same_except_trans[OF same_except_write_features Cons.IH])
qed

lemma same_except_zone_body:
  assumes "zone_body sf src i k nd ls gs L = Inr L'"
  shows "same_except k L L'"
proof -
  let ?nd = "map (\<lambda>a. set_nan a (eq_nodata a (ndvi_nodata src))) nd"
  let ?ls = "map (\<lambda>a. set_nan a (eq_nodata a (lst_nodata src))) ls"
  obtain m1 where m1: "median_loop ?nd since3 = Inr m1"
    using assms by (cases "median_loop ?nd since3") (simp_all add: zone_body_def Let_def)
  obtain m2 where m2: "median_loop ?ls since3 = Inr m2"
    using assms m1 by (cases "median_loop ?ls since3") (simp_all add: zone_body_def Let_def)
  obtain L1 where L1: "write_trend sf i k m1 ''NDVI'' L = Inr L1"
    using assms m1 m2
    by (cases "write_trend sf i k m1 ''NDVI'' L") (simp_all add: zone_body_def Let_def)
  obtain L2 where L2: "write_trend sf i k m2 ''LST'' L1 = Inr L2"
    using assms m1 m2 L1
    by (cases "write_trend sf i k m2 ''LST'' L1") (simp_all add: zone_body_def Let_def)
  have L': "L' = write_areas k gs [(1, ''green''), (2, ''water''), (3, ''urban'')] L2"
    using assms m1 m2 L1 L2 by (simp add: zone_body_def Let_def)
  have "same_except k L L1" by (rule same_except_write_trend[OF L1])
  moreover have "same_except k L1 L2" by (rule same_except_write_trend[OF L2])
  moreover have "same_except k L2 L'" unfolding L' by (rule same_except_write_areas)
  ultimately show ?thesis by (blast intro: same_except_trans)
qed

lemma zone_loop_skip:
  "clip_fails src k \<Longrightarrow> zone_loop sf src i (k # rest) L = zone_loop sf src i rest L"
  by (auto simp: clip_fails_def isl_def split: sum.splits)

lemma zone_loop_skip_mid:
  "clip_fails src k \<Longrightarrow>
   zone_loop sf src i (pre @ k # rest) L = zone_loop sf src i (pre @ rest) L"
proof (induction pre arbitrary: L)
  case Nil
  then show ?case by (simp only: append_Nil zone_loop_skip)
next
  case (Cons a pre)
  then show ?case by (auto split: sum.splits)
qed

lemma SetFields_append: "SetFields b (SetFields a feat) = SetFields (a @ b) feat"
  by (simp add: SetFields_def)

lemma SetFields_Nil: "SetFields [] feat = feat"
  by (simp add: SetFields_def)

lemma write_features_append:
  "write_features k b (write_features k a L) = write_features k (a @ b) L"
  by (induction L) (simp_all add: write_features_def key_SetFields SetFields_append)

lemma write_features_Nil: "write_features k [] L = L"
  by (induction L) (simp_all add: write_features_def SetFields_Nil)

lemma writer_of_twice:
  assumes "writer_of k W L K"
  shows "W L = Inr (write_features k K L)"
    and "W (write_features k K L) = Inr (write_features k K L)"
proof -
  show "W L = Inr (write_features k K L)" using assms by (simp add: writer_of_def)
  have "W (write_features k K L) = Inr (write_features k K (write_features k K L))"
    using assms by (simp add: writer_of_def map_key_write_features)
  then show "W (write_features k K L) = Inr (write_features k K L)"
    by (simp only: write_features_twice)
qed

lemma list_ex_key: "list_ex (\<lambda>feat. key feat = k) L \<longleftrightarrow> k \<in> set (map key L)"
  by (induction L) auto

lemma write_trend_writer:
  assumes "write_trend sf i k bd lab L = Inr L'"
  shows "\<exists>K. writer_of k (write_trend sf i k bd lab) L K"
proof (cases "list_ex (\<lambda>feat. key feat = k) L")
  case True
  with assms obtain med where med: "py_get bd i = Inr med"
    by (cases "py_get bd i") (simp_all add: write_trend_def Let_def)
  have ex: "list_ex (\<lambda>feat. key feat = k) L0" if "map key L0 = map key L" for L0 :: "'a feature list"
    using True that by (simp add: list_ex_key)
  show ?thesis
    unfolding writer_of_def
    by (rule exI, intro allI impI) (simp add: write_trend_def Let_def ex med)
next
  case False
  have ex: "\<not> list_ex (\<lambda>feat. key feat = k) L0" if "map key L0 = map key L" for L0 :: "'a feature list"
    using False that by (simp add: list_ex_key)
  show ?thesis
    unfolding writer_of_def
    by (rule exI[of _ "[]"]) (simp add: write_trend_def Let_def ex write_features_Nil)
qed

lemma write_areas_writer:
  "\<exists>K. \<forall>L. write_areas k gsc cls L = write_features k K L"
proof (induction cls)
  case Nil
  show ?case by (rule exI[of _ "[]"]) (simp add: write_features_Nil)
next
  case (Cons c cls)
  obtain i lab where c: "c = (i, lab)" by (cases c)
  from Cons obtain K where K: "\<And>L. write_areas k gsc cls L = write_features k K L" by blast
  show ?case
    unfolding c
    by (rule exI[of _ "[(lab @ ''Area'', Some (Fin (real_of_int (class_area gsc i))))] @ K"])
       (simp add: K write_features_append del: append.simps)
qed

lemma zone_body_writer:
  assumes "zone_body sf src i k nd ls gs L = Inr L'"
  shows "\<exists>K. writer_of k (zone_body sf src i k nd ls gs) L K"
proof -
  let ?nd = "map (\<lambda>a. set_nan a (eq_nodata a (ndvi_nodata src))) nd"
  let ?ls = "map (\<lambda>a. set_nan a (eq_nodata a (lst_nodata src))) ls"
  obtain m1 where m1: "median_loop ?nd since3 = Inr m1"
    using assms by (cases "median_loop ?nd since3") (simp_all add: zone_body_def Let_def)
  obtain m2 where m2: "median_loop ?ls since3 = Inr m2"
    using assms m1 by (cases "median_loop ?ls since3") (simp_all add: zone_body_def Let_def)
  obtain L1 where L1: "write_trend sf i k m1 ''NDVI'' L = Inr L1"
    using assms m1 m2
    by (cases "write_trend sf i k m1 ''NDVI'' L") (simp_all add: zone_body_def Let_def)
  obtain L2 where L2: "write_trend sf i k m2 ''LST'' L1 = Inr L2"
    using assms m1 m2 L1
    by (cases "write_trend sf i k m2 ''LST'' L1") (simp_all add: zone_body_def Let_def)
  obtain K1 where K1: "writer_of k (write_trend sf i k m1 ''NDVI'') L K1"
    using write_trend_writer[OF L1] by blast
  obtain K2 where K2: "writer_of k (write_trend sf i k m2 ''LST'') L1 K2"
    using write_trend_writer[OF L2] by blast
  obtain K3 where K3: "\<And>L. write_areas k gs [(1, ''green''), (2, ''water''), (3, ''urban'')] L
      = write_features k K3 L"
    using write_areas_writer[of k gs "[(1, ''green''), (2, ''water''), (3, ''urban'')]"] by blast
  have kL1: "map key L1 = map key L"
    using writer_of_twice(1)[OF K1] L1 by (simp add: map_key_write_features)
  have "zone_body sf src i k nd ls gs L0 = Inr (write_features k (K1 @ K2 @ K3) L0)"
    if k0: "map key L0 = map key L" for L0
  proof -
    have a: "write_trend sf i k m1 ''NDVI'' L0 = Inr (write_features k K1 L0)"
      using K1 k0 by (simp add: writer_of_def)
    have "map key (write_features k K1 L0) = map key L1"
      by (simp add: map_key_write_features k0 kL1)
    then have b: "write_trend sf i k m2 ''LST'' (write_features k K1 L0)
        = Inr (write_features k K2 (write_features k K1 L0))"
      using K2 by (simp add: writer_of_def)
    show ?thesis
      by (simp add: zone_body_def Let_def m1 m2 a b K3 write_features_append
          del: write_areas.simps)
  qed
  then show ?thesis unfolding writer_of_def by blast
qed

lemma zone_body_twice:
  assumes "zone_body sf src i k nd ls gs L = Inr L'"
  shows "zone_body sf src i k nd ls gs L' = Inr L'"
proof -
  obtain K where K: "writer_of k (zone_body sf src i k nd ls gs) L K"
    using zone_body_writer[OF assms] by blast
  have "L' = write_features k K L" using writer_of_twice(1)[OF K] assms by simp
  then show ?thesis using writer_of_twice(2)[OF K] by simp
qed

lemma stats_band_loop_writer:
  "stats_band_loop k g h bands L = Inr L' \<Longrightarrow>
   \<exists>K. (\<forall>L0. stats_band_loop k g h bands L0 = Inr (write_features k K L0)) \<and>
       (\<forall>name\<in>fst ` set K. \<exists>b. name = h @ take 5 b)"
proof (induction bands arbitrary: L)
  case Nil
  show ?case by (rule exI[of _ "[]"]) (simp add: write_features_Nil)
next
  case (Cons c bands)
  obtain d zm where c: "c = (d, zm)" by (cases c)
  from Cons.prems obtain median where m: "zm g = Inr median"
    by (cases "zm g") (simp_all add: c)
  with Cons.prems have "stats_band_loop k g h bands (write_features k [(h @ take 5 d, median)] L) = Inr L'"
    by (simp add: c)
  from Cons.IH[OF this] obtain K where
    K: "\<And>L0. stats_band_loop k g h bands L0 = Inr (write_features k K L0)"
      "\<forall>name\<in>fst ` set K. \<exists>b. name = h @ take 5 b" by blast
  show ?case
    unfolding c
  proof (rule exI[of _ "[(h @ take 5 d, median)] @ K"], intro conjI allI)
    fix L0 show "stats_band_loop k g h ((d, zm) # bands) L0
        = Inr (write_features k ([(h @ take 5 d, median)] @ K) L0)"
      by (simp add: m K(1) write_features_append del: append.simps)
    show "\<forall>name\<in>fst ` set ([(h @ take 5 d, median)] @ K). \<exists>b. name = h @ take 5 b"
      using K(2) by auto
  qed
qed

lemma tif_loop_writer:
  "tif_loop k g tifs L = Inr L' \<Longrightarrow>
   \<exists>K. (\<forall>L0. tif_loop k g tifs L0 = Inr (write_features k K L0)) \<and>
       (\<forall>name\<in>fst ` set K. \<exists>d b. name = field_header d @ take 5 b)"
proof (induction tifs arbitrary: L)
  case Nil
  show ?case by (rule exI[of _ "[]"]) (simp add: write_features_Nil)
next
  case (Cons r tifs)
  let ?h = "field_header (rast_description r)"
  from Cons.prems obtain L1 where
    L1: "stats_band_loop k g ?h (rast_bands r) L = Inr L1" and r: "tif_loop k g tifs L1 = Inr L'"
    by (cases "stats_band_loop k g ?h (rast_bands r) L") simp_all
  from stats_band_loop_writer[OF L1] obtain K1 where
    K1: "\<And>L0. stats_band_loop k g ?h (rast_bands r) L0 = Inr (write_features k K1 L0)"
      "\<forall>name\<in>fst ` set K1. \<exists>b. name = ?h @ take 5 b" by blast
  from Cons.IH[OF r] obtain K2 where
    K2: "\<And>L0. tif_loop k g tifs L0 = Inr (write_features k K2 L0)"
      "\<forall>name\<in>fst ` set K2. \<exists>d b. name = field_header d @ take 5 b" by blast
  show ?case
  proof (rule exI[of _ "K1 @ K2"], intro conjI allI)
    fix L0 show "tif_loop k g (r # tifs) L0 = Inr (write_features k (K1 @ K2) L0)"
      by (simp add: K1(1) K2(1) write_features_append)
    show "\<forall>name\<in>fst ` set (K1 @ K2). \<exists>d b. name = field_header d @ take 5 b"
    proof
      fix name assume "name \<in> fst ` set (K1 @ K2)"
      then consider "name \<in> fst ` set K1" | "name \<in> fst ` set K2" by auto
      then show "\<exists>d b. name = field_header d @ take 5 b"
      proof cases
        case 1 then show ?thesis using K1(2) by blast
      next
        case 2 then show ?thesis using K2(2) by blast
      qed
    qed
  qed
qed

lemma zonal_sum_count:
  "(case zonal_sum (map (\<lambda>v. v = i) px) of None \<Rightarrow> 0 | Some s \<Rightarrow> s) = real (count_list px i)"
proof -
  define kept where "kept = filter (\<lambda>b. b) (map (\<lambda>v. v = i) px)"
  have "length kept = count_list px i"
    unfolding kept_def by (induction px) auto
  then show ?thesis
    unfolding zonal_sum_def Let_def kept_def[symmetric] by (cases kept) auto
qed

lemma total_area_list_eq:
  "total_area_list px = [real (count_list px 1), real (count_list px 2), real (count_list px 3)]"
proof -
  have u: "[0 ..< 3] = [0, 1, 2 :: nat]" by (simp add: upt_rec)
  show ?thesis
    unfolding total_area_list_def u
    using zonal_sum_count[of 1 px] zonal_sum_count[of 2 px] zonal_sum_count[of 3 px]
    by simp
qed

lemma class_area_count: "real_of_int (class_area gs i) = real (count_list (concat gs) i) * 25"
proof -
  have "length (filter (\<lambda>v. v = i) xs) = count_list xs i" for xs :: "int list"
    by (induction xs) auto
  then show ?thesis by (simp add: class_area_def)
qed


lemma zone_body2_writer:
  assumes "zone_body2 src k L = Inr out"
  shows "\<exists>g mn ml px K.
           dissolve src k = Inr g \<and> touched_classes src g = Inr px \<and>
           (\<forall>L0. zone_body2 src k L0 =
              Inr (write_features k
                    ([(''medianNDVI'', mn), (''medianLST'', ml),
                      (''greenArea'', Some (Fin (total_area_list px ! 0 * 5 * 5))),
                      (''waterArea'', Some (Fin (total_area_list px ! 1 * 5 * 5))),
                      (''urbanArea'', Some (Fin (total_area_list px ! 2 * 5 * 5)))] @ K) L0)) \<and>
           (\<forall>name\<in>fst ` set K. \<exists>d b. name = field_header d @ take 5 b)"
proof -
  obtain g where g: "dissolve src k = Inr g"
    using assms by (cases "dissolve src k") (simp_all add: zone_body2_def)
  obtain mn where mn: "median_ndvi_snap src g = Inr mn"
    using assms g by (cases "median_ndvi_snap src g") (simp_all add: zone_body2_def)
  obtain ml where ml: "median_lst_snap src g = Inr ml"
    using assms g mn by (cases "median_lst_snap src g") (simp_all add: zone_body2_def)
  obtain px where px: "touched_classes src g = Inr px"
    using assms g mn ml by (cases "touched_classes src g") (simp_all add: zone_body2_def)
  let ?K5 = "[(''medianNDVI'', mn), (''medianLST'', ml),
              (''greenArea'', Some (Fin (total_area_list px ! 0 * 5 * 5))),
              (''waterArea'', Some (Fin (total_area_list px ! 1 * 5 * 5))),
              (''urbanArea'', Some (Fin (total_area_list px ! 2 * 5 * 5)))]"
  have t: "tif_loop k g (tif_files src) (write_features k ?K5 L) = Inr out"
    using assms g mn ml px by (simp add: zone_body2_def Let_def)
  from tif_loop_writer[OF t] obtain K where
    K: "\<And>L0. tif_loop k g (tif_files src) L0 = Inr (write_features k K L0)"
      "\<forall>name\<in>fst ` set K. \<exists>d b. name = field_header d @ take 5 b" by blast
  have "zone_body2 src k L0 = Inr (write_features k (?K5 @ K) L0)" for L0
    by (simp add: zone_body2_def Let_def g mn ml px K(1) write_features_append
        del: append.simps)
  then show ?thesis using g px K(2) by blast
qed

lemma zone_body2_twice:
  assumes "zone_body2 src k L = Inr out"
  shows "zone_body2 src k out = Inr out"
proof -
  from zone_body2_writer[OF assms] obtain K where
    K: "\<And>L0. zone_body2 src k L0 = Inr (write_features k K L0)" by blast
  have "out = write_features k K L" using K[of L] assms by simp
  then show ?thesis using K[of out] by (simp add: write_features_twice)
qed



lemma zone_body_InrD:
  assumes "zone_body sf src i k nd ls gs L = Inr out"
  shows "\<exists>L2. length L2 = length L \<and>
           out = write_areas k gs [(1, ''green''), (2, ''water''), (3, ''urban'')] L2"
proof -
  let ?nd = "map (\<lambda>a. set_nan a (eq_nodata a (ndvi_nodata src))) nd"
  let ?ls = "map (\<lambda>a. set_nan a (eq_nodata a (lst_nodata src))) ls"
  obtain m1 where m1: "median_loop ?nd since3 = Inr m1"
    using assms by (cases "median_loop ?nd since3") (simp_all add: zone_body_def Let_def)
  obtain m2 where m2: "median_loop ?ls since3 = Inr m2"
    using assms m1 by (cases "median_loop ?ls since3") (simp_all add: zone_body_def Let_def)
  obtain L1 where L1: "write_trend sf i k m1 ''NDVI'' L = Inr L1"
    using assms m1 m2
    by (cases "write_trend sf i k m1 ''NDVI'' L") (simp_all add: zone_body_def Let_def)
  obtain L2 where L2: "write_trend sf i k m2 ''LST'' L1 = Inr L2"
    using assms m1 m2 L1
    by (cases "write_trend sf i k m2 ''LST'' L1") (simp_all add: zone_body_def Let_def)
  have "out = write_areas k gs [(1, ''green''), (2, ''water''), (3, ''urban'')] L2"
    using assms m1 m2 L1 L2 by (simp add: zone_body_def Let_def)
  moreover have "length L2 = length L"
    using same_except_write_trend[OF L1] same_except_write_trend[OF L2]
    by (simp add: same_except_def)
  ultimately show ?thesis by blast
qed

lemma zone_body_areas:
  assumes out: "zone_body sf src i k nd ls gs L = Inr out" and f: "f \<in> set out" "key f = k"
  shows "attrs f ''greenArea'' = Some (Fin (real (count_list (concat gs) 1) * 25))"
    and "attrs f ''waterArea'' = Some (Fin (real (count_list (concat gs) 2) * 25))"
    and "attrs f ''urbanArea'' = Some (Fin (real (count_list (concat gs) 3) * 25))"
proof -
  from zone_body_InrD[OF out] obtain L2 where
    o: "out = write_areas k gs [(1, ''green''), (2, ''water''), (3, ''urban'')] L2" by blast
  let ?K = "[(''greenArea'', Some (Fin (real (count_list (concat gs) 1) * 25))),
             (''waterArea'', Some (Fin (real (count_list (concat gs) 2) * 25))),
             (''urbanArea'', Some (Fin (real (count_list (concat gs) 3) * 25)))]"
  have "out = write_features k ?K L2"
    unfolding o by (simp add: write_features_append class_area_count)
  then have fo: "f \<in> set (write_features k ?K L2)" using f(1) by simp
  show "attrs f ''greenArea'' = Some (Fin (real (count_list (concat gs) 1) * 25))"
    by (rule write_features_written[OF fo f(2)]) simp
  show "attrs f ''waterArea'' = Some (Fin (real (count_list (concat gs) 2) * 25))"
    by (rule write_features_written[OF fo f(2)]) simp
  show "attrs f ''urbanArea'' = Some (Fin (real (count_list (concat gs) 3) * 25))"
    by (rule write_features_written[OF fo f(2)]) simp
qed

lemma write_features_agree:
  assumes "f \<in> set (write_features k kvs L)" "g \<in> set (write_features k kvs L)"
    and "key f = k" "key g = k" "name \<in> fst ` set kvs"
  shows "attrs f name = attrs g name"
proof -
  have "name \<in> fst ` set (rev kvs)" using assms(5) by simp
  then obtain v where v: "map_of (rev kvs) name = Some v"
    by (cases "map_of (rev kvs) name") (auto simp: map_of_eq_None_iff)
  show ?thesis
    using write_features_written[OF assms(1,3) v] write_features_written[OF assms(2,4) v]
    by simp
qed

lemma median_loop_ok:
  "\<forall>year\<in>set ys. year < length in_mem \<Longrightarrow>
   median_loop in_mem ys = Inr (map (\<lambda>year. nanmedian (in_mem ! year)) ys)"
  by (induction ys) simp_all

lemma since3_eq: "since3 = [0 ..< 30]"
proof -
  have "map (\<lambda>year. year - k) [k ..< k + n] = [0 ..< n]" for n k :: nat
    by (induction n) simp_all
  from this[of 1990 30] show ?thesis by (simp add: since3_def years3_def)
qed


lemma length_set_nan_eq_nodata: "length (set_nan a (eq_nodata a nd)) = length a"
  by (simp add: set_nan_def eq_nodata_def)

lemma read_band_values:
  "fst (read_band year b) = set_nan (pixels b) (eq_nodata (pixels b) (nodata b))"
  by (simp add: read_band_def Let_def)

lemma band_loop_result:
  "band_loop sn k ds = Inr (bd, td) \<Longrightarrow>
   bd = map (\<lambda>b. set_nan (pixels b) (eq_nodata (pixels b) (nodata b))) ds \<and>
   td = map (\<lambda>(j, b). replicate (length (pixels b)) (Fin (real_of_int (sn ! j))))
            (zip [k ..< k + length ds] ds)"
proof (induction ds arbitrary: k bd td)
  case Nil
  then show ?case by simp
next
  case (Cons b ds)
  from Cons.prems have k: "k < length sn" by (simp split: if_splits)
  obtain arr tarr where rb: "read_band (sn ! k) b = (arr, tarr)" by (cases "read_band (sn ! k) b")
  from Cons.prems k rb obtain bd' td' where
    r: "band_loop sn (Suc k) ds = Inr (bd', td')" and bd: "bd = arr # bd'" and td: "td = tarr # td'"
    by (cases "band_loop sn (Suc k) ds") auto
  have a: "arr = set_nan (pixels b) (eq_nodata (pixels b) (nodata b))"
    using read_band_values[of "sn ! k" b] rb by simp
  have t: "tarr = replicate (length (pixels b)) (Fin (real_of_int (sn ! k)))"
    using read_band_time[of "sn ! k" b] rb by simp
  have u: "[k ..< k + length (b # ds)] = k # [Suc k ..< Suc k + length ds]"
    by (simp add: upt_rec)
  show ?case
    unfolding u using Cons.IH[OF r] by (simp add: bd td a t)
qed

lemma dstack_result:
  "dstack arrs = Inr st \<Longrightarrow>
   arrs \<noteq> [] \<and> (\<forall>a\<in>set arrs. length a = length (hd arrs)) \<and>
   st = map (\<lambda>p. map (\<lambda>b. b ! p) arrs) [0 ..< length (hd arrs)]"
  by (cases arrs) (auto simp: dstack_def list_all_iff split: if_splits)

lemma RasterLinModel_InrD:
  assumes "RasterLinModel sf r c ds s e = Inr out"
  shows "\<exists>bd td bstack tstack.
           band_loop (since s e) 0 ds = Inr (bd, td) \<and> dstack bd = Inr bstack \<and>
           dstack td = Inr tstack \<and>
           out = write_bands
                   (stat_list (map (\<lambda>(ts, vs). lin_model sf (length bd) ts vs) (zip tstack bstack)))
                   stat_labs"
proof -
  have r: "r" using assms by (cases r) (simp_all add: RasterLinModel_def)
  obtain bd td where bl: "band_loop (since s e) 0 ds = Inr (bd, td)"
    using assms r by (cases "band_loop (since s e) 0 ds") (auto simp: RasterLinModel_def)
  obtain bstack where b: "dstack bd = Inr bstack"
    using assms r bl by (cases "dstack bd") (simp_all add: RasterLinModel_def)
  obtain tstack where t: "dstack td = Inr tstack"
    using assms r bl b by (cases "dstack td") (simp_all add: RasterLinModel_def)
  have o: "out = write_bands
                   (stat_list (map (\<lambda>(ts, vs). lin_model sf (length bd) ts vs) (zip tstack bstack)))
                   stat_labs"
    using assms r bl b t by (simp add: RasterLinModel_def Let_def split: if_splits)
  show ?thesis
    by (rule exI[of _ bd], rule exI[of _ td], rule exI[of _ bstack], rule exI[of _ tstack])
       (intro conjI bl b t o)
qed

lemma RasterLinModel_result:
  assumes out: "RasterLinModel sf r c ds s e = Inr out"
  shows "out = write_bands
                 (stat_list (map (\<lambda>p. lin_model sf (length ds) (entity_times (since s e) ds)
                                        (entity_values ds p))
                                 [0 ..< length (pixels (hd ds))]))
                 stat_labs"
proof -
  let ?sn = "since s e"
  let ?g = "\<lambda>b. set_nan (pixels b) (eq_nodata (pixels b) (nodata b))"
  let ?N = "length (pixels (hd ds))"
  from RasterLinModel_InrD[OF out] obtain bd td bstack tstack where
    bl: "band_loop ?sn 0 ds = Inr (bd, td)" and b: "dstack bd = Inr bstack"
    and t: "dstack td = Inr tstack"
    and o: "out = write_bands
                   (stat_list (map (\<lambda>(ts, vs). lin_model sf (length bd) ts vs) (zip tstack bstack)))
                   stat_labs"
    by blast
  have bd: "bd = map ?g ds"
    by (rule conjunct1[OF band_loop_result[OF bl]])
  have "td = map (\<lambda>(j, b). replicate (length (pixels b)) (Fin (real_of_int (?sn ! j))))
                      (zip [0 ..< 0 + length ds] ds)"
    by (rule conjunct2[OF band_loop_result[OF bl]])
  then have td: "td = map (\<lambda>(j, b). replicate (length (pixels b)) (Fin (real_of_int (?sn ! j))))
                      (zip [0 ..< length ds] ds)"
    by simp
  have bne: "bd \<noteq> []"
    by (rule conjunct1[OF dstack_result[OF b]])
  have bs: "bstack = map (\<lambda>p. map (\<lambda>b. b ! p) bd) [0 ..< length (hd bd)]"
    by (rule conjunct2[OF conjunct2[OF dstack_result[OF b]]])
  have tl: "\<forall>a\<in>set td. length a = length (hd td)"
    by (rule conjunct1[OF conjunct2[OF dstack_result[OF t]]])
  have ts: "tstack = map (\<lambda>p. map (\<lambda>b. b ! p) td) [0 ..< length (hd td)]"
    by (rule conjunct2[OF conjunct2[OF dstack_result[OF t]]])
  have dne: "ds \<noteq> []" using bne bd by simp
  then obtain d0 dr where ds: "ds = d0 # dr" by (cases ds) auto
  have lb: "length (hd bd) = ?N"
    by (simp add: bd ds length_set_nan_eq_nodata)
  have u: "[0 ..< length ds] = 0 # [Suc 0 ..< length ds]"
    unfolding ds by (rule upt_conv_Cons) simp
  have lt: "length (hd td) = ?N"
    unfolding td u by (simp add: ds)
  have ltd: "length td = length ds" by (simp add: td)
  have nb: "length bd = length ds" by (simp add: bd)
  let ?res = "map (\<lambda>(ts, vs). lin_model sf (length bd) ts vs) (zip tstack bstack)"
  let ?F = "\<lambda>p. lin_model sf (length ds) (entity_times ?sn ds) (entity_values ds p)"
  have ltk: "length tstack = ?N" by (subst ts) (simp add: lt)
  have lbk: "length bstack = ?N" by (subst bs) (simp add: lb)
  have lres: "length ?res = ?N" using ltk lbk by (simp only: length_map length_zip min.idem)
  have "?res = map ?F [0 ..< ?N]"
  proof (rule nth_equalityI)
    show "length ?res = length (map ?F [0 ..< ?N])" by (subst lres) simp
    fix p assume "p < length ?res"
    then have p: "p < ?N" by (simp only: lres)
    have "bstack ! p = map (\<lambda>b. b ! p) bd"
      unfolding bs lb using p by simp
    then have bp: "bstack ! p = entity_values ds p"
      by (simp add: bd entity_values_def)
    have tp: "tstack ! p = entity_times ?sn ds"
    proof (rule nth_equalityI)
      show "length (tstack ! p) = length (entity_times ?sn ds)"
        using p by (simp add: ts lt ltd entity_times_def)
      fix j assume "j < length (tstack ! p)"
      then have j: "j < length ds" using p by (simp add: ts lt ltd)
      have tj: "td ! j = replicate (length (pixels (ds ! j))) (Fin (real_of_int (?sn ! j)))"
        using j by (simp add: td)
      have "td ! j \<in> set td" using j ltd by simp
      then have "length (td ! j) = ?N" using tl lt by simp
      then have "p < length (pixels (ds ! j))" using p tj by simp
      then have "(td ! j) ! p = Fin (real_of_int (?sn ! j))" by (simp add: tj)
      then show "tstack ! p ! j = entity_times ?sn ds ! j"
        using p j ltd by (simp add: ts lt entity_times_def)
    qed
    have lr: "p < length ?res" using p by (simp only: lres)
    have "?res ! p = ?F p"
      using lr by (simp add: tp bp nb)
    then show "?res ! p = map ?F [0 ..< ?N] ! p"
      using p by simp
  qed
  then show ?thesis by (simp only: o)
qed

lemma RasterLinModel_entity:
  assumes out: "RasterLinModel sf r c ds s e = Inr out" and p: "p < length (pixels (hd ds))"
  shows "map (\<lambda>b. band_array b ! p) out =
           [cov (lin_model sf (length ds) (entity_times (since s e) ds) (entity_values ds p)),
            cor (lin_model sf (length ds) (entity_times (since s e) ds) (entity_values ds p)),
            slope (lin_model sf (length ds) (entity_times (since s e) ds) (entity_values ds p)),
            intercept (lin_model sf (length ds) (entity_times (since s e) ds) (entity_values ds p)),
            tstats (lin_model sf (length ds) (entity_times (since s e) ds) (entity_values ds p)),
            stderr (lin_model sf (length ds) (entity_times (since s e) ds) (entity_values ds p)),
            pval (lin_model sf (length ds) (entity_times (since s e) ds) (entity_values ds p))]"
  unfolding RasterLinModel_result[OF out] write_bands_def stat_list_def stat_labs_def
  using p by simp

lemma sqrt_6_two_thirds: "sqrt 6 * sqrt (2 / 3) = 2"
proof -
  have "sqrt 6 * sqrt (2 / 3) = sqrt 4" by (simp add: real_sqrt_mult [symmetric])
  then show ?thesis by simp
qed

lemma sqrt_three_quarters: "sqrt (3 / 4) = sqrt 3 / 2"
  by (simp add: real_sqrt_divide)

lemma arctan_inverse_sqrt_3: "arctan (1 / sqrt 3) = pi / 6"
  by (rule arctan_unique) (simp_all add: tan_30)

lemma student_t_sf_1: "student_t_sf t (Suc 0) = 1 / 2 - arctan t / pi"
  by (simp add: student_t_sf_def Let_def field_simps)


lemma since_1990_1998: "since 1990 1998 = [1, 4, 7]"
  by (simp add: since_def years_def upt_rec)

lemma since_1990_2009: "since 1990 2009 = [1, 4, 7, 10, 13, 16, 19]"
  by (simp add: since_def years_def upt_rec)

lemma all_missing_cov:
  assumes "\<forall>v\<in>set band_data. v = NaN" and "0 < n"
  shows "cov (lin_model sf n time_data band_data) = Fin 0"
proof -
  have "valid (map (\<lambda>(t, v). fmul (fsub t m) (fsub v y)) (zip time_data band_data)) = []"
    for m y
    using assms(1)
  proof (induction band_data arbitrary: time_data)
    case Nil
    then show ?case by (simp add: valid_def)
  next
    case (Cons v vs)
    then show ?case by (cases time_data) (simp_all add: valid_def fsub_def fmul_NaN_right)
  qed
  then show ?thesis using assms(2) by (simp add: lin_model_cov nansum_def)
qed

lemma length_time_data3: "length time_data3 = 30"
  by (simp add: time_data3_def since3_eq)

lemma write_trend_fields:
  assumes w: "write_trend sf band_idx k band_data lab layer = Inr out"
    and f: "f \<in> set out" "key f = k"
  shows "attrs f (''cov'' @ lab) = Some (cov (lin_model sf 30 time_data3 band_data))"
    and "attrs f (''corr'' @ lab) = Some (cor (lin_model sf 30 time_data3 band_data))"
    and "attrs f (''slope'' @ lab) = Some (slope (lin_model sf 30 time_data3 band_data))"
    and "attrs f (''int'' @ lab) = Some (intercept (lin_model sf 30 time_data3 band_data))"
    and "attrs f (''tstat'' @ lab) = Some (tstats (lin_model sf 30 time_data3 band_data))"
    and "attrs f (''stderr'' @ lab) = Some (stderr (lin_model sf 30 time_data3 band_data))"
    and "attrs f (''pval'' @ lab) = Some (pval (lin_model sf 30 time_data3 band_data))"
proof -
  let ?st = "lin_model sf 30 time_data3 band_data"
  have ex: "list_ex (\<lambda>feat. key feat = k) layer"
  proof (rule ccontr)
    assume n: "\<not> list_ex (\<lambda>feat. key feat = k) layer"
    then have "out = layer" using w by (simp add: write_trend_def Let_def)
    then show False using n f by (auto simp: list_ex_iff)
  qed
  obtain med where m: "py_get band_data band_idx = Inr med"
    using w ex by (cases "py_get band_data band_idx") (simp_all add: write_trend_def Let_def)
  let ?kvs = "[(''cov'' @ lab, Some (cov ?st)), (''corr'' @ lab, Some (cor ?st)),
               (''int'' @ lab, Some (intercept ?st)), (''med'' @ lab, Some med),
               (''pval'' @ lab, Some (pval ?st)), (''slope'' @ lab, Some (slope ?st)),
               (''stderr'' @ lab, Some (stderr ?st)), (''tstat'' @ lab, Some (tstats ?st))]"
  have o: "out = write_features k ?kvs layer"
    using w ex m by (simp add: write_trend_def Let_def stat_labs3_def length_time_data3)
  have fo: "f \<in> set (write_features k ?kvs layer)" using f(1) o by simp
  show "attrs f (''cov'' @ lab) = Some (cov ?st)"
    by (rule write_features_written[OF fo f(2)]) simp
  show "attrs f (''corr'' @ lab) = Some (cor ?st)"
    by (rule write_features_written[OF fo f(2)]) simp
  show "attrs f (''slope'' @ lab) = Some (slope ?st)"
    by (rule write_features_written[OF fo f(2)]) simp
  show "attrs f (''int'' @ lab) = Some (intercept ?st)"
    by (rule write_features_written[OF fo f(2)]) simp
  show "attrs f (''tstat'' @ lab) = Some (tstats ?st)"
    by (rule write_features_written[OF fo f(2)]) simp
  show "attrs f (''stderr'' @ lab) = Some (stderr ?st)"
    by (rule write_features_written[OF fo f(2)]) simp
  show "attrs f (''pval'' @ lab) = Some (pval ?st)"
    by (rule write_features_written[OF fo f(2)]) simp
qed







lemma write_trend_succeeds:
  "length bd = 30 \<Longrightarrow> - 30 \<le> i \<Longrightarrow> i < 30 \<Longrightarrow> \<exists>out. write_trend sf i k bd lab L = Inr out"
  by (simp add: write_trend_def Let_def py_get_def)

lemma median_loop_since3:
  assumes "30 \<le> length in_mem"
  shows "\<exists>ms. median_loop in_mem since3 = Inr ms \<and> length ms = 30"
proof -
  have "\<forall>year\<in>set since3. year < length in_mem" using assms by (auto simp: since3_eq)
  from median_loop_ok[OF this] show ?thesis by (simp add: since3_eq)
qed

lemma zone_body_succeeds:
  assumes "30 \<le> length nd" "30 \<le> length ls" "- 30 \<le> i" "i < 30"
  shows "\<exists>out. zone_body sf src i k nd ls gs L = Inr out"
proof -
  let ?nd = "map (\<lambda>a. set_nan a (eq_nodata a (ndvi_nodata src))) nd"
  let ?ls = "map (\<lambda>a. set_nan a (eq_nodata a (lst_nodata src))) ls"
  from median_loop_since3[of ?nd] assms(1) obtain m1 where
    m1: "median_loop ?nd since3 = Inr m1" "length m1 = 30" by auto
  from median_loop_since3[of ?ls] assms(2) obtain m2 where
    m2: "median_loop ?ls since3 = Inr m2" "length m2 = 30" by auto
  from write_trend_succeeds[OF m1(2) assms(3,4), where sf = sf and k = k and lab = "''NDVI''"
      and L = L] obtain L1 where
    L1: "write_trend sf i k m1 ''NDVI'' L = Inr L1" by blast
  from write_trend_succeeds[OF m2(2) assms(3,4), where sf = sf and k = k and lab = "''LST''"
      and L = L1] obtain L2 where
    L2: "write_trend sf i k m2 ''LST'' L1 = Inr L2" by blast
  show ?thesis by (simp add: zone_body_def Let_def m1(1) m2(1) L1 L2)
qed

lemma zone_loop_step:
  assumes "mask_ndvi src a = Inr nd" "mask_lst src a = Inr ls" "mask_gsc src a = Inr gs"
    and "zone_body sf src i a nd ls gs L = Inr L1"
  shows "zone_loop sf src i (a # ks) L = zone_loop sf src i ks L1"
  by (simp add: assms)

lemma zone_loop_total:
  assumes "\<forall>k\<in>set ks. clip_fails src k \<or> clips_ok src k" "- 30 \<le> i" "i < 30"
  shows "\<exists>out. zone_loop sf src i ks L = Inr out"
  using assms(1)
proof (induction ks arbitrary: L)
  case Nil
  then show ?case by simp
next
  case (Cons a ks)
  then have ih: "\<exists>out. zone_loop sf src i ks L0 = Inr out" for L0 by simp
  show ?case
  proof (cases "clip_fails src a")
    case True
    then show ?thesis using ih[of L] by (simp only: zone_loop_skip)
  next
    case False
    then have ok: "clips_ok src a" using Cons.prems by simp
    then obtain nd ls gs where m: "mask_ndvi src a = Inr nd" "mask_lst src a = Inr ls"
      "mask_gsc src a = Inr gs" and len: "30 \<le> length nd" "30 \<le> length ls"
      by (auto simp: clips_ok_def split: sum.splits)
    from zone_body_succeeds[OF len assms(2,3), where sf = sf and src = src and k = a
        and gs = gs and L = L] obtain L1 where
      b: "zone_body sf src i a nd ls gs L = Inr L1" by blast
    show ?thesis using ih[of L1] by (simp only: zone_loop_step[OF m b])
  qed
qed

lemma zone_loop_keeps:
  "k \<in> set ks \<longrightarrow> clip_fails src k \<Longrightarrow> zone_loop sf src i ks L = Inr L' \<Longrightarrow>
   length L' = length L \<and> (\<forall>j<length L. key (L' ! j) = key (L ! j) \<and> (key (L ! j) = k \<longrightarrow> L' ! j = L ! j))"
proof (induction ks arbitrary: L)
  case Nil
  then show ?case by simp
next
  case (Cons a ks)
  have p: "k \<in> set ks \<longrightarrow> clip_fails src k" using Cons.prems(1) by simp
  show ?case
  proof (cases "clip_fails src a")
    case True
    then have "zone_loop sf src i ks L = Inr L'"
      using Cons.prems(2) by (simp only: zone_loop_skip)
    then show ?thesis using Cons.IH[OF p] by blast
  next
    case False
    then have ak: "a \<noteq> k" using Cons.prems(1) by auto
    from False Cons.prems(2) obtain nd ls gs L1 where
      b: "zone_body sf src i a nd ls gs L = Inr L1" and r: "zone_loop sf src i ks L1 = Inr L'"
      by (auto simp: clip_fails_def split: sum.splits)
    have s: "same_except a L L1" by (rule same_except_zone_body[OF b])
    have ih: "length L' = length L1 \<and>
      (\<forall>j<length L1. key (L' ! j) = key (L1 ! j) \<and> (key (L1 ! j) = k \<longrightarrow> L' ! j = L1 ! j))"
      by (rule Cons.IH[OF p r])
    show ?thesis using s ih ak by (auto simp: same_except_def)
  qed
qed

lemma zone_loop_processed:
  assumes "zone_loop sf src i ks L = Inr out" and "k \<in> set ks" and "\<not> clip_fails src k"
    and "mask_gsc src k = Inr gs" and "f \<in> set out" and "key f = k"
  shows "attrs f ''greenArea'' = Some (Fin (real (count_list (concat gs) 1) * 25))
       \<and> attrs f ''waterArea'' = Some (Fin (real (count_list (concat gs) 2) * 25))
       \<and> attrs f ''urbanArea'' = Some (Fin (real (count_list (concat gs) 3) * 25))"
  using assms(1,2)
proof (induction ks arbitrary: L)
  case Nil
  then show ?case by simp
next
  case (Cons a ks)
  show ?case
  proof (cases "clip_fails src a")
    case True
    then have r: "zone_loop sf src i ks L = Inr out"
      using Cons.prems(1) by (simp only: zone_loop_skip)
    have "a \<noteq> k" using True assms(3) by auto
    then have "k \<in> set ks" using Cons.prems(2) by simp
    from Cons.IH[OF r this] show ?thesis .
  next
    case False
    from False Cons.prems(1) obtain nd ls gs' L1 where
      m: "mask_gsc src a = Inr gs'"
      and b: "zone_body sf src i a nd ls gs' L = Inr L1" and r: "zone_loop sf src i ks L1 = Inr out"
      by (auto simp: clip_fails_def split: sum.splits)
    show ?thesis
    proof (cases "k \<in> set ks")
      case True
      from Cons.IH[OF r True] show ?thesis .
    next
      case nk: False
      then have ak: "a = k" using Cons.prems(2) by simp
      have gs: "gs' = gs" using m assms(4) ak by simp
      have keep: "length out = length L1 \<and>
        (\<forall>j<length L1. key (out ! j) = key (L1 ! j) \<and> (key (L1 ! j) = k \<longrightarrow> out ! j = L1 ! j))"
        by (rule zone_loop_keeps[OF _ r]) (simp add: nk)
      from assms(5) obtain j where j: "j < length out" "out ! j = f"
        by (auto simp: in_set_conv_nth)
      have jl: "j < length L1" using j(1) keep by simp
      have "key (L1 ! j) = k" using keep jl j(2) assms(6) by auto
      then have "L1 ! j = f" using keep jl j(2) by auto
      then have fm: "f \<in> set L1" using jl by (auto simp: in_set_conv_nth)
      have b': "zone_body sf src i k nd ls gs L = Inr L1" using b ak gs by simp
      show ?thesis
        by (intro conjI zone_body_areas[OF b' fm assms(6)])
    qed
  qed
qed

lemmas np_defs = nanmean_def nansum_def nanvar_def nanstd_def valid_def fsub_def Let_def

section \<open>The claims\<close>

text \<open>
  C1 (number of valid periods).  The claim: the statistics of every entity use \<open>n\<close> = the
  number of its valid periods, and an entity with fewer than 3 valid periods has an entirely
  undefined result.  The code takes \<open>n\<close> = \<^verbatim>\<open>band_data.shape[2]\<close>, the number of layers,
  for all entities, and never counts the valid periods.  On a raster of two pixels and three
  bands (offsets 1, 4, 7) where pixel 0 holds 1, no-data, 3 and pixel 1 holds no-data three
  times, the covariance band is [2, 0]: both pixels have fewer than 3 valid periods and a
  defined covariance, and with \<open>n\<close> = 2 the covariance of pixel 0 would be 3.
\<close>

theorem valid_period_count_counterexample:
  "map_sum id (\<lambda>out. (description (out ! 0), band_array (out ! 0)))
     (RasterLinModel student_t_sf True True
        [\<lparr>pixels = [Fin 1, Fin (- 9999)], nodata = Some (Fin (- 9999))\<rparr>,
         \<lparr>pixels = [Fin (- 9999), Fin (- 9999)], nodata = Some (Fin (- 9999))\<rparr>,
         \<lparr>pixels = [Fin 3, Fin (- 9999)], nodata = Some (Fin (- 9999))\<rparr>] 1990 1998)
   = Inr (''covaraince'', [Fin 2, Fin 0])"
proof -
  have bl: "band_loop [1, 4, 7] 0
        [\<lparr>pixels = [Fin 1, Fin (- 9999)], nodata = Some (Fin (- 9999))\<rparr>,
         \<lparr>pixels = [Fin (- 9999), Fin (- 9999)], nodata = Some (Fin (- 9999))\<rparr>,
         \<lparr>pixels = [Fin 3, Fin (- 9999)], nodata = Some (Fin (- 9999))\<rparr>]
      = Inr ([[Fin 1, NaN], [NaN, NaN], [Fin 3, NaN]],
             [[Fin 1, Fin 1], [Fin 4, Fin 4], [Fin 7, Fin 7]])"
    by (simp add: read_band_def set_nan_def eq_nodata_def np_eq_def Let_def)
  have c0: "cov (lin_model student_t_sf 3 [Fin 1, Fin 4, Fin 7] [Fin 1, NaN, Fin 3]) = Fin 2"
    by (simp add: lin_model_cov np_defs)
  have c1: "cov (lin_model student_t_sf 3 [Fin 1, Fin 4, Fin 7] [NaN, NaN, NaN]) = Fin 0"
    by (simp add: lin_model_cov np_defs)
  show ?thesis
    unfolding RasterLinModel_def since_1990_1998 bl
    by (simp add: dstack_def Let_def write_bands_def stat_list_def stat_labs_def
        c0[unfolded numeral_3_eq_3] c1[unfolded numeral_3_eq_3])
qed

text \<open>
  C1 as amended: the statistics of every pixel are those of \<open>lin_model\<close> on the two series
  of the pixel with \<open>n\<close> = the number of layers of the raster; in the zonal pipeline the
  fields written for a zone are those of \<open>lin_model\<close> with \<open>n\<close> = 30 on the offsets
  0, ..., 29 and the yearly medians of the zone.  Missing values are skipped by the NaN-aware
  mean, standard deviation and sum and by nothing else; their number is never checked, and an
  entity without any valid value has the covariance 0.
\<close>

theorem trend_uses_layer_count:
  "(\<forall>out p. RasterLinModel sf raster_isfile cutline_isfile ds start_year end_year = Inr out
        \<and> p < length (pixels (hd ds)) \<longrightarrow>
      map (\<lambda>b. band_array b ! p) out =
        (let st = lin_model sf (length ds) (entity_times (since start_year end_year) ds)
                    (entity_values ds p)
         in [cov st, cor st, slope st, intercept st, tstats st, stderr st, pval st]))
   \<and> (\<forall>out f. write_trend sf band_idx k band_data lab layer = Inr out \<and> f \<in> set out
        \<and> key f = k \<longrightarrow>
        (let st = lin_model sf 30 time_data3 band_data
         in attrs f (''cov'' @ lab) = Some (cov st) \<and> attrs f (''corr'' @ lab) = Some (cor st)
          \<and> attrs f (''slope'' @ lab) = Some (slope st)
          \<and> attrs f (''int'' @ lab) = Some (intercept st)
          \<and> attrs f (''tstat'' @ lab) = Some (tstats st)
          \<and> attrs f (''stderr'' @ lab) = Some (stderr st)
          \<and> attrs f (''pval'' @ lab) = Some (pval st)))
   \<and> (\<forall>n time_data vs. 0 < n \<and> (\<forall>v\<in>set vs. v = NaN) \<longrightarrow>
        cov (lin_model sf n time_data vs) = Fin 0)"
proof (intro conjI allI impI)
  fix out p
  assume a: "RasterLinModel sf raster_isfile cutline_isfile ds start_year end_year = Inr out
        \<and> p < length (pixels (hd ds))"
  show "map (\<lambda>b. band_array b ! p) out =
        (let st = lin_model sf (length ds) (entity_times (since start_year end_year) ds)
                    (entity_values ds p)
         in [cov st, cor st, slope st, intercept st, tstats st, stderr st, pval st])"
    unfolding Let_def by (rule RasterLinModel_entity[OF conjunct1[OF a] conjunct2[OF a]])
next
  fix out f
  assume a: "write_trend sf band_idx k band_data lab layer = Inr out \<and> f \<in> set out \<and> key f = k"
  then have w: "write_trend sf band_idx k band_data lab layer = Inr out"
    and f: "f \<in> set out" "key f = k" by simp_all
  show "let st = lin_model sf 30 time_data3 band_data
         in attrs f (''cov'' @ lab) = Some (cov st) \<and> attrs f (''corr'' @ lab) = Some (cor st)
          \<and> attrs f (''slope'' @ lab) = Some (slope st)
          \<and> attrs f (''int'' @ lab) = Some (intercept st)
          \<and> attrs f (''tstat'' @ lab) = Some (tstats st)
          \<and> attrs f (''stderr'' @ lab) = Some (stderr st)
          \<and> attrs f (''pval'' @ lab) = Some (pval st)"
    unfolding Let_def by (intro conjI write_trend_fields[OF w f])
next
  fix n :: nat and time_data vs
  assume "0 < n \<and> (\<forall>v\<in>set vs. v = NaN)"
  then show "cov (lin_model sf n time_data vs) = Fin 0"
    using all_missing_cov[of vs n sf time_data] by simp
qed

text \<open>
  A raster of one pixel and seven bands (offsets 1, 4, ..., 19) whose values equal the
  offsets, the fourth being no-data: covariance 252 / 7 = 36, slope 1 and intercept 0 (with
  \<open>n\<close> = 6 the covariance would be 42 and the slope 7/6).
\<close>

theorem trend_uses_layer_count_witness:
  "map_sum id (\<lambda>out. [band_array (out ! 0) ! 0, band_array (out ! 2) ! 0,
                       band_array (out ! 3) ! 0])
     (RasterLinModel student_t_sf True True
        [\<lparr>pixels = [Fin 1], nodata = Some (Fin (- 9999))\<rparr>,
         \<lparr>pixels = [Fin 4], nodata = Some (Fin (- 9999))\<rparr>,
         \<lparr>pixels = [Fin 7], nodata = Some (Fin (- 9999))\<rparr>,
         \<lparr>pixels = [Fin (- 9999)], nodata = Some (Fin (- 9999))\<rparr>,
         \<lparr>pixels = [Fin 13], nodata = Some (Fin (- 9999))\<rparr>,
         \<lparr>pixels = [Fin 16], nodata = Some (Fin (- 9999))\<rparr>,
         \<lparr>pixels = [Fin 19], nodata = Some (Fin (- 9999))\<rparr>] 1990 2009)
   = Inr [Fin 36, Fin 1, Fin 0]"
proof -
  let ?ds = "[\<lparr>pixels = [Fin 1], nodata = Some (Fin (- 9999))\<rparr>,
         \<lparr>pixels = [Fin 4], nodata = Some (Fin (- 9999))\<rparr>,
         \<lparr>pixels = [Fin 7], nodata = Some (Fin (- 9999))\<rparr>,
         \<lparr>pixels = [Fin (- 9999)], nodata = Some (Fin (- 9999))\<rparr>,
         \<lparr>pixels = [Fin 13], nodata = Some (Fin (- 9999))\<rparr>,
         \<lparr>pixels = [Fin 16], nodata = Some (Fin (- 9999))\<rparr>,
         \<lparr>pixels = [Fin 19], nodata = Some (Fin (- 9999))\<rparr>]"
  let ?T = "[Fin 1, Fin 4, Fin 7, Fin 10, Fin 13, Fin 16, Fin 19]"
  let ?V = "[Fin 1, Fin 4, Fin 7, NaN, Fin 13, Fin 16, Fin 19]"
  let ?st = "lin_model student_t_sf 7 ?T ?V"
  have ld: "length ?ds = 7" by simp
  have bl: "band_loop [1, 4, 7, 10, 13, 16, 19] 0 ?ds
      = Inr ([[Fin 1], [Fin 4], [Fin 7], [NaN], [Fin 13], [Fin 16], [Fin 19]],
             [[Fin 1], [Fin 4], [Fin 7], [Fin 10], [Fin 13], [Fin 16], [Fin 19]])"
    by (simp add: read_band_def set_nan_def eq_nodata_def np_eq_def Let_def)
  obtain out where r: "RasterLinModel student_t_sf True True ?ds 1990 2009 = Inr out"
    unfolding RasterLinModel_def since_1990_2009 bl by (simp add: dstack_def Let_def)
  have et: "entity_times (since 1990 2009) ?ds = ?T"
    by (simp add: entity_times_def since_1990_2009 upt_rec)
  have ev: "entity_values ?ds 0 = ?V"
    by (simp add: entity_values_def set_nan_def eq_nodata_def np_eq_def)
  have m: "map (\<lambda>b. band_array b ! 0) out
             = [cov ?st, cor ?st, slope ?st, intercept ?st, tstats ?st, stderr ?st, pval ?st]"
    using conjunct1[OF trend_uses_layer_count, rule_format, of student_t_sf True True ?ds
        1990 2009 out 0] r
    by (simp only: et ev ld Let_def) simp
  have l: "length out = 7"
    using arg_cong[OF m, of length] by simp
  have n: "band_array (out ! i) ! 0 = map (\<lambda>b. band_array b ! 0) out ! i" if "i < 7" for i
    using that l by simp
  have c: "cov ?st = Fin 36"
    by (simp add: lin_model_cov np_defs)
  have s: "slope ?st = Fin 1"
    by (simp add: lin_model_slope c np_defs)
  have i: "intercept ?st = Fin 0"
    by (simp add: lin_model_intercept s np_defs)
  show ?thesis
    by (simp add: r n m c s i del: list.map)
qed

text \<open>
  C2 (Temporal Design Matrix Builder).  The claim: wherever the observation equals the no-data
  sentinel, the time offset of that entity and period is marked invalid too.  The band loop
  overwrites the sentinel in \<^verbatim>\<open>arr\<close> first and computes the mask for \<^verbatim>\<open>time_arr\<close> from
  the overwritten array, where nothing equals the sentinel any more.  On a raster of one
  pixel and three bands whose second band holds the sentinel -9999, the value becomes NaN
  and the time offset stays 4.
\<close>

theorem band_loop_time_offset_kept:
  "band_loop (since 1990 1998) 0
     [\<lparr>pixels = [Fin 1], nodata = Some (Fin (- 9999))\<rparr>,
      \<lparr>pixels = [Fin (- 9999)], nodata = Some (Fin (- 9999))\<rparr>,
      \<lparr>pixels = [Fin 3], nodata = Some (Fin (- 9999))\<rparr>]
   = Inr ([[Fin 1], [NaN], [Fin 3]], [[Fin 1], [Fin 4], [Fin 7]])"
  by (simp add: since_def years_def upt_rec read_band_def set_nan_def eq_nodata_def np_eq_def
      Let_def)




text \<open>
  C4 (correlation of magnitude 1).  The claim: the t-statistic is undefined and the standard
  error inherits that.  The code divides by \<open>sqrt (1 - cor\<^sup>2) = 0\<close>, which gives an infinity,
  and the slope over an infinity is 0.  The counterexample is the entity of a raster of seven
  bands (offsets 1, 4, ..., 19) whose values equal the offsets; every intermediate result
  there is a small integer.
\<close>

theorem unit_correlation_counterexample:
  "cor (lin_model student_t_sf 7 (map Fin [1, 4, 7, 10, 13, 16, 19])
          (map Fin [1, 4, 7, 10, 13, 16, 19])) = Fin 1
   \<and> tstats (lin_model student_t_sf 7 (map Fin [1, 4, 7, 10, 13, 16, 19])
          (map Fin [1, 4, 7, 10, 13, 16, 19])) = PInf
   \<and> stderr (lin_model student_t_sf 7 (map Fin [1, 4, 7, 10, 13, 16, 19])
          (map Fin [1, 4, 7, 10, 13, 16, 19])) = Fin 0"
  by (simp add: lin_model_def np_defs)

text \<open>
  C4 as amended: with at least 3 layers, a correlation of exactly 1 gives the t-statistic
  +infinity, a correlation of exactly -1 gives -infinity, and in both cases the standard error
  is 0; nothing raises.
\<close>

theorem unit_correlation_infinite_t:
  assumes "3 \<le> n"
    and "cor (lin_model sf n time_data band_data) = Fin 1
       \<or> cor (lin_model sf n time_data band_data) = Fin (- 1)"
  shows "(cor (lin_model sf n time_data band_data) = Fin 1
            \<longrightarrow> tstats (lin_model sf n time_data band_data) = PInf)
       \<and> (cor (lin_model sf n time_data band_data) = Fin (- 1)
            \<longrightarrow> tstats (lin_model sf n time_data band_data) = NInf)
       \<and> stderr (lin_model sf n time_data band_data) = Fin 0"
  using assms unit_cor_pos(1,2)[of n sf time_data band_data]
    unit_cor_neg(1,2)[of n sf time_data band_data] by auto

theorem unit_correlation_infinite_t_witness:
  "(3 :: nat) \<le> 7
   \<and> cor (lin_model student_t_sf 7 (map Fin [1, 4, 7, 10, 13, 16, 19])
          (map Fin [19, 16, 13, 10, 7, 4, 1])) = Fin (- 1)
   \<and> tstats (lin_model student_t_sf 7 (map Fin [1, 4, 7, 10, 13, 16, 19])
          (map Fin [19, 16, 13, 10, 7, 4, 1])) = NInf
   \<and> stderr (lin_model student_t_sf 7 (map Fin [1, 4, 7, 10, 13, 16, 19])
          (map Fin [19, 16, 13, 10, 7, 4, 1])) = Fin 0"
proof -
  have c: "cor (lin_model student_t_sf 7 (map Fin [1, 4, 7, 10, 13, 16, 19])
          (map Fin [19, 16, 13, 10, 7, 4, 1])) = Fin (- 1)"
    by (simp add: lin_model_def np_defs)
  show ?thesis
    using c unit_correlation_infinite_t [of 7 student_t_sf "map Fin [1, 4, 7, 10, 13, 16, 19]"
        "map Fin [19, 16, 13, 10, 7, 4, 1]"]
    by simp
qed

text \<open>
  C5 (two-tailed p-value).  The claim: the p-value is twice the survival function at the
  absolute value of the t-statistic, and lies in [0, 1].  The code passes the t-statistic
  itself to \<^verbatim>\<open>t.sf\<close>.  For the entity with offsets 1, 4, 7 and values 3, 1, 2 the
  correlation is -1/2, the t-statistic is \<open>- 1 / sqrt 3\<close> and the p-value is 4/3.
\<close>

theorem pval_of_negative_trend:
  "tstats (lin_model student_t_sf 3 [Fin 1, Fin 4, Fin 7] [Fin 3, Fin 1, Fin 2])
     = Fin (- (1 / sqrt 3))
   \<and> pval (lin_model student_t_sf 3 [Fin 1, Fin 4, Fin 7] [Fin 3, Fin 1, Fin 2]) = Fin (4 / 3)"
  by (simp add: lin_model_def np_defs sqrt_6_two_thirds sqrt_three_quarters t_sf_def
      student_t_sf_1 arctan_minus arctan_inverse_sqrt_3)

text \<open>
  C6 (round trip on a noise-free line).  The claim: slope \<open>b\<close>, intercept \<open>a\<close>, correlation
  of magnitude 1 and p-value 0.  For the falling line \<open>v = 10 - t\<close> on the seven offsets
  1, 4, ..., 19 the code returns the slope -1, the intercept 10 and the correlation -1, but
  the t-statistic is -infinity and the p-value is 2: \<^verbatim>\<open>t.sf\<close> is applied to the
  t-statistic itself and not to its absolute value.  Every intermediate result is a small
  integer (means 10 and 0, both standard deviations 6, covariance -36).
\<close>

theorem falling_line_pval_two:
  "slope (lin_model student_t_sf 7 (map Fin [1, 4, 7, 10, 13, 16, 19])
          (map Fin [9, 6, 3, 0, - 3, - 6, - 9])) = Fin (- 1)
   \<and> intercept (lin_model student_t_sf 7 (map Fin [1, 4, 7, 10, 13, 16, 19])
          (map Fin [9, 6, 3, 0, - 3, - 6, - 9])) = Fin 10
   \<and> cor (lin_model student_t_sf 7 (map Fin [1, 4, 7, 10, 13, 16, 19])
          (map Fin [9, 6, 3, 0, - 3, - 6, - 9])) = Fin (- 1)
   \<and> tstats (lin_model student_t_sf 7 (map Fin [1, 4, 7, 10, 13, 16, 19])
          (map Fin [9, 6, 3, 0, - 3, - 6, - 9])) = NInf
   \<and> pval (lin_model student_t_sf 7 (map Fin [1, 4, 7, 10, 13, 16, 19])
          (map Fin [9, 6, 3, 0, - 3, - 6, - 9])) = Fin 2"
  by (simp add: lin_model_def np_defs t_sf_def)

text \<open>
  C7 (a failing zone is skipped).  The claim covers the dissolve and the clip of a zone.
  Only \<^verbatim>\<open>CollectCensusTractStats2.py\<close> dissolves, and nothing in its loop is inside
  \<^verbatim>\<open>try\<close>: when the dissolve raises for the second of three zones, the run ends with
  that error and the third zone is never reached.
\<close>

theorem dissolve_error_aborts_counterexample:
  "AddRasterStatistics2 True
     \<lparr>dissolve = (\<lambda>k. if k = ''94110'' then Inl ValueError else Inr k),
      median_ndvi_snap = (\<lambda>g. Inr (Some (Fin 1))),
      median_lst_snap = (\<lambda>g. Inr (Some (Fin 300))),
      touched_classes = (\<lambda>g. Inr [1, 3, 1]), tif_files = [],
      greenSpace_pixel_width = 5, greenSpace_pixel_height = 5\<rparr>
     [\<lparr>key = ''94103'', attrs = Map.empty\<rparr>, \<lparr>key = ''94110'', attrs = Map.empty\<rparr>,
      \<lparr>key = ''94117'', attrs = Map.empty\<rparr>]
   = Inl ValueError"
  by (simp add: AddRasterStatistics2_def zone_body2_def total_area_list_eq write_features_def
      SetFields_def)

text \<open>
  C7 as amended, for the clips of \<^verbatim>\<open>CollectCensusTractStats3.py\<close>: when one of the
  three clips raises for the key \<open>k\<close>, the run over \<open>pre @ k # rest\<close> is the run over
  \<open>pre @ rest\<close>.  When the run ends normally, the layer has its features and keys, no
  feature of key \<open>k\<close> has changed, and every feature of another key of the list whose clips
  succeed holds the class areas of its own clip: the zones before and after \<open>k\<close> were
  processed.  The run does end normally when every other key either fails to clip or clips
  to time series of at least 30 bands, and \<open>band_idx\<close> is an index of a list of 30.
\<close>

theorem failing_clip_is_skipped:
  assumes "clip_fails src k"
  shows "zone_loop sf src band_idx (pre @ k # rest) layer
           = zone_loop sf src band_idx (pre @ rest) layer
       \<and> (\<forall>out. zone_loop sf src band_idx (pre @ k # rest) layer = Inr out \<longrightarrow>
             length out = length layer
           \<and> (\<forall>j<length layer. key (out ! j) = key (layer ! j)
                 \<and> (key (layer ! j) = k \<longrightarrow> out ! j = layer ! j))
           \<and> (\<forall>k'\<in>set (pre @ rest). \<forall>f\<in>set out. \<forall>gs.
                 key f = k' \<and> \<not> clip_fails src k' \<and> mask_gsc src k' = Inr gs \<longrightarrow>
                   attrs f ''greenArea'' = Some (Fin (real (count_list (concat gs) 1) * 25))
                 \<and> attrs f ''waterArea'' = Some (Fin (real (count_list (concat gs) 2) * 25))
                 \<and> attrs f ''urbanArea'' = Some (Fin (real (count_list (concat gs) 3) * 25))))
       \<and> ((\<forall>k'\<in>set (pre @ rest). clip_fails src k' \<or> clips_ok src k')
            \<and> - 30 \<le> band_idx \<and> band_idx < 30 \<longrightarrow>
          (\<exists>out. zone_loop sf src band_idx (pre @ k # rest) layer = Inr out))"
proof (intro conjI allI impI ballI)
  show "zone_loop sf src band_idx (pre @ k # rest) layer
           = zone_loop sf src band_idx (pre @ rest) layer"
    by (rule zone_loop_skip_mid[OF assms])
next
  fix out
  assume o: "zone_loop sf src band_idx (pre @ k # rest) layer = Inr out"
  have keep: "length out = length layer \<and>
      (\<forall>j<length layer. key (out ! j) = key (layer ! j)
         \<and> (key (layer ! j) = k \<longrightarrow> out ! j = layer ! j))"
    by (rule zone_loop_keeps[OF _ o]) (simp add: assms)
  show "length out = length layer" using keep by simp
  fix j
  assume j: "j < length layer"
  show "key (out ! j) = key (layer ! j)" using keep j by simp
  assume "key (layer ! j) = k"
  then show "out ! j = layer ! j" using keep j by simp
next
  fix out k' f gs
  assume o: "zone_loop sf src band_idx (pre @ k # rest) layer = Inr out"
    and k': "k' \<in> set (pre @ rest)" and f: "f \<in> set out"
    and h: "key f = k' \<and> \<not> clip_fails src k' \<and> mask_gsc src k' = Inr gs"
  have o': "zone_loop sf src band_idx (pre @ rest) layer = Inr out"
    using o by (simp only: zone_loop_skip_mid[OF assms])
  have p: "attrs f ''greenArea'' = Some (Fin (real (count_list (concat gs) 1) * 25))
       \<and> attrs f ''waterArea'' = Some (Fin (real (count_list (concat gs) 2) * 25))
       \<and> attrs f ''urbanArea'' = Some (Fin (real (count_list (concat gs) 3) * 25))"
    using zone_loop_processed[OF o' k' _ _ f] h by blast
  show "attrs f ''greenArea'' = Some (Fin (real (count_list (concat gs) 1) * 25))"
    using p by simp
  show "attrs f ''waterArea'' = Some (Fin (real (count_list (concat gs) 2) * 25))"
    using p by simp
  show "attrs f ''urbanArea'' = Some (Fin (real (count_list (concat gs) 3) * 25))"
    using p by simp
next
  assume h: "(\<forall>k'\<in>set (pre @ rest). clip_fails src k' \<or> clips_ok src k')
            \<and> - 30 \<le> band_idx \<and> band_idx < 30"
  then have "\<exists>out. zone_loop sf src band_idx (pre @ rest) layer = Inr out"
    using zone_loop_total[of "pre @ rest" src band_idx sf layer] by blast
  then show "\<exists>out. zone_loop sf src band_idx (pre @ k # rest) layer = Inr out"
    by (simp only: zone_loop_skip_mid[OF assms])
qed

text \<open>
  Three zones, the clip of the second raises: the first and the third get their areas
  (2 and 3 green pixels, 50 and 75), the second keeps the value it had.
\<close>

theorem failing_clip_is_skipped_witness:
  "clip_fails
     \<lparr>mask_ndvi = (\<lambda>k. if k = ''94110'' then Inl MaskError else Inr (replicate 30 [Fin 1])),
      mask_lst = (\<lambda>k. Inr (replicate 30 [Fin 300])),
      mask_gsc = (\<lambda>k. if k = ''94103'' then Inr [[1, 3, 1]] else Inr [[1, 1, 1, 2]]),
      ndvi_nodata = None, lst_nodata = None,
      gsc_pixel_width = 5, gsc_pixel_height = 5\<rparr> ''94110''
   \<and> \<not> isl (zone_loop student_t_sf
        \<lparr>mask_ndvi = (\<lambda>k. if k = ''94110'' then Inl MaskError else Inr (replicate 30 [Fin 1])),
         mask_lst = (\<lambda>k. Inr (replicate 30 [Fin 300])),
         mask_gsc = (\<lambda>k. if k = ''94103'' then Inr [[1, 3, 1]] else Inr [[1, 1, 1, 2]]),
         ndvi_nodata = None, lst_nodata = None,
         gsc_pixel_width = 5, gsc_pixel_height = 5\<rparr> 0
        ([''94103''] @ ''94110'' # [''94117''])
        [\<lparr>key = ''94103'', attrs = Map.empty\<rparr>,
         \<lparr>key = ''94110'', attrs = [''greenArea'' \<mapsto> Fin 7]\<rparr>,
         \<lparr>key = ''94117'', attrs = Map.empty\<rparr>])
   \<and> map (\<lambda>f. (key f, attrs f ''greenArea'', attrs f ''waterArea'', attrs f ''urbanArea''))
       (projr (zone_loop student_t_sf
        \<lparr>mask_ndvi = (\<lambda>k. if k = ''94110'' then Inl MaskError else Inr (replicate 30 [Fin 1])),
         mask_lst = (\<lambda>k. Inr (replicate 30 [Fin 300])),
         mask_gsc = (\<lambda>k. if k = ''94103'' then Inr [[1, 3, 1]] else Inr [[1, 1, 1, 2]]),
         ndvi_nodata = None, lst_nodata = None,
         gsc_pixel_width = 5, gsc_pixel_height = 5\<rparr> 0
        ([''94103''] @ ''94110'' # [''94117''])
        [\<lparr>key = ''94103'', attrs = Map.empty\<rparr>,
         \<lparr>key = ''94110'', attrs = [''greenArea'' \<mapsto> Fin 7]\<rparr>,
         \<lparr>key = ''94117'', attrs = Map.empty\<rparr>]))
     = [(''94103'', Some (Fin 50), Some (Fin 0), Some (Fin 25)),
        (''94110'', Some (Fin 7), None, None),
        (''94117'', Some (Fin 75), Some (Fin 25), Some (Fin 0))]"
proof -
  let ?src = "\<lparr>mask_ndvi = (\<lambda>k. if k = ''94110'' then Inl MaskError else Inr (replicate 30 [Fin 1])),
      mask_lst = (\<lambda>k :: string. Inr (replicate 30 [Fin 300])),
      mask_gsc = (\<lambda>k. if k = ''94103'' then Inr [[1, 3, 1]] else Inr [[1, 1, 1, 2]]),
      ndvi_nodata = None, lst_nodata = None,
      gsc_pixel_width = 5, gsc_pixel_height = 5\<rparr>"
  let ?L = "[\<lparr>key = ''94103'', attrs = Map.empty\<rparr>,
         \<lparr>key = ''94110'', attrs = [''greenArea'' \<mapsto> Fin 7]\<rparr>,
         \<lparr>key = ''94117'', attrs = Map.empty\<rparr>]"
  let ?z = "zone_loop student_t_sf ?src 0 ([''94103''] @ ''94110'' # [''94117'']) ?L"
  let ?g = "\<lambda>f :: string feature. (key f, attrs f ''greenArea'', attrs f ''waterArea'', attrs f ''urbanArea'')"
  have c: "clip_fails ?src ''94110''"
    by (simp add: clip_fails_def)
  note th = failing_clip_is_skipped[OF c, of student_t_sf 0 "[''94103'']" "[''94117'']" ?L]
  have ok: "\<forall>k'\<in>set ([''94103''] @ [''94117'']). clip_fails ?src k' \<or> clips_ok ?src k'"
    by (simp add: clips_ok_def)
  have "\<exists>out. ?z = Inr out"
    using conjunct2[OF conjunct2[OF th]] ok by simp
  then obtain out where out: "?z = Inr out" by blast
  note p = conjunct1[OF conjunct2[OF th], rule_format, OF out]
  have l: "length out = 3" using conjunct1[OF p] by simp
  have k0: "key (out ! 0) = ''94103''" and k2: "key (out ! 2) = ''94117''"
    and o1: "out ! 1 = \<lparr>key = ''94110'', attrs = [''greenArea'' \<mapsto> Fin 7]\<rparr>"
    using conjunct1[OF conjunct2[OF p], rule_format, of 0]
      conjunct1[OF conjunct2[OF p], rule_format, of 2]
      conjunct1[OF conjunct2[OF p], rule_format, of 1]
    by simp_all
  have m0: "out ! 0 \<in> set out" and m2: "out ! 2 \<in> set out" using l by simp_all
  have n0: "\<not> clip_fails ?src ''94103''" and n2: "\<not> clip_fails ?src ''94117''"
    by (simp_all add: clip_fails_def)
  have a0: "attrs (out ! 0) ''greenArea'' = Some (Fin 50)
          \<and> attrs (out ! 0) ''waterArea'' = Some (Fin 0)
          \<and> attrs (out ! 0) ''urbanArea'' = Some (Fin 25)"
    using conjunct2[OF conjunct2[OF p], rule_format, of "''94103''" "out ! 0" "[[1, 3, 1]]"]
      m0 k0 n0 by simp
  have a2: "attrs (out ! 2) ''greenArea'' = Some (Fin 75)
          \<and> attrs (out ! 2) ''waterArea'' = Some (Fin 25)
          \<and> attrs (out ! 2) ''urbanArea'' = Some (Fin 0)"
    using conjunct2[OF conjunct2[OF p], rule_format, of "''94117''" "out ! 2" "[[1, 1, 1, 2]]"]
      m2 k2 n2 by simp
  have e: "out = [out ! 0, out ! 1, out ! 2]"
    using l by (intro nth_equalityI) (auto simp: less_Suc_eq numeral_3_eq_3 numeral_2_eq_2)
  have "map ?g out = [?g (out ! 0), ?g (out ! 1), ?g (out ! 2)]"
    by (subst e) simp
  then have r: "map ?g out = [(''94103'', Some (Fin 50), Some (Fin 0), Some (Fin 25)),
        (''94110'', Some (Fin 7), None, None),
        (''94117'', Some (Fin 75), Some (Fin 25), Some (Fin 0))]"
    by (simp add: k0 k2 a0 a2 o1[unfolded One_nat_def])
  have nz: "\<not> isl ?z" by (simp only: out sum.disc not_False_eq_True)
  have r': "map ?g (projr ?z) = [(''94103'', Some (Fin 50), Some (Fin 0), Some (Fin 25)),
        (''94110'', Some (Fin 7), None, None),
        (''94117'', Some (Fin 75), Some (Fin 25), Some (Fin 0))]"
    by (simp only: out sum.sel r)
  show ?thesis using c nz r' by (intro conjI)
qed

text \<open>
  C8 (Feature Attribute Writer).  Writing the same fields for the same key a second time
  leaves the layer as the first write left it, with as many features as before; all features
  of the key hold the same value in every written field.  The same holds for the whole
  body of a zone in both pipelines: run again on its own result, it returns that result.
\<close>

theorem attribute_writer_idempotent:
  "write_features k kvs (write_features k kvs layer) = write_features k kvs layer
   \<and> length (write_features k kvs layer) = length layer
   \<and> (\<forall>f\<in>set (write_features k kvs layer). \<forall>g\<in>set (write_features k kvs layer).
         key f = k \<and> key g = k \<longrightarrow> (\<forall>name\<in>fst ` set kvs. attrs f name = attrs g name))
   \<and> (\<forall>out. zone_body sf src band_idx k in_mem_ndvi in_mem_lst in_mem_gsc layer = Inr out \<longrightarrow>
         zone_body sf src band_idx k in_mem_ndvi in_mem_lst in_mem_gsc out = Inr out)
   \<and> (\<forall>out. zone_body2 src2 k layer = Inr out \<longrightarrow> zone_body2 src2 k out = Inr out)"
proof (intro conjI)
  show "write_features k kvs (write_features k kvs layer) = write_features k kvs layer"
    by (rule write_features_twice)
  show "length (write_features k kvs layer) = length layer"
    by (rule length_write_features)
  show "\<forall>f\<in>set (write_features k kvs layer). \<forall>g\<in>set (write_features k kvs layer).
         key f = k \<and> key g = k \<longrightarrow> (\<forall>name\<in>fst ` set kvs. attrs f name = attrs g name)"
    by (intro ballI impI) (rule write_features_agree, simp_all)
  show "\<forall>out. zone_body sf src band_idx k in_mem_ndvi in_mem_lst in_mem_gsc layer = Inr out \<longrightarrow>
         zone_body sf src band_idx k in_mem_ndvi in_mem_lst in_mem_gsc out = Inr out"
    by (intro allI impI) (rule zone_body_twice)
  show "\<forall>out. zone_body2 src2 k layer = Inr out \<longrightarrow> zone_body2 src2 k out = Inr out"
    by (intro allI impI) (rule zone_body2_twice)
qed

theorem attribute_writer_idempotent_witness:
  "write_features ''06075'' [(''slopeNDVI'', Some (Fin 2)), (''greenArea'', Some (Fin 100))]
     (write_features ''06075'' [(''slopeNDVI'', Some (Fin 2)), (''greenArea'', Some (Fin 100))]
        [\<lparr>key = ''06075'', attrs = Map.empty\<rparr>, \<lparr>key = ''06081'', attrs = Map.empty\<rparr>,
         \<lparr>key = ''06075'', attrs = [''slopeNDVI'' \<mapsto> Fin 7]\<rparr>])
   = [\<lparr>key = ''06075'', attrs = [''slopeNDVI'' \<mapsto> Fin 2, ''greenArea'' \<mapsto> Fin 100]\<rparr>,
      \<lparr>key = ''06081'', attrs = Map.empty\<rparr>,
      \<lparr>key = ''06075'', attrs = [''slopeNDVI'' \<mapsto> Fin 2, ''greenArea'' \<mapsto> Fin 100]\<rparr>]"
proof -
  have w: "write_features ''06075'' [(''slopeNDVI'', Some (Fin 2)), (''greenArea'', Some (Fin 100))]
        [\<lparr>key = ''06075'', attrs = Map.empty\<rparr>, \<lparr>key = ''06081'', attrs = Map.empty\<rparr>,
         \<lparr>key = ''06075'', attrs = [''slopeNDVI'' \<mapsto> Fin 7]\<rparr>]
     = [\<lparr>key = ''06075'', attrs = [''slopeNDVI'' \<mapsto> Fin 2, ''greenArea'' \<mapsto> Fin 100]\<rparr>,
        \<lparr>key = ''06081'', attrs = Map.empty\<rparr>,
        \<lparr>key = ''06075'', attrs = [''slopeNDVI'' \<mapsto> Fin 2, ''greenArea'' \<mapsto> Fin 100]\<rparr>]"
    by (simp add: write_features_def SetFields_def)
  have "write_features ''06075'' [(''slopeNDVI'', Some (Fin 2)), (''greenArea'', Some (Fin 100))]
     (write_features ''06075'' [(''slopeNDVI'', Some (Fin 2)), (''greenArea'', Some (Fin 100))]
        [\<lparr>key = ''06075'', attrs = Map.empty\<rparr>, \<lparr>key = ''06081'', attrs = Map.empty\<rparr>,
         \<lparr>key = ''06075'', attrs = [''slopeNDVI'' \<mapsto> Fin 7]\<rparr>])
     = write_features ''06075'' [(''slopeNDVI'', Some (Fin 2)), (''greenArea'', Some (Fin 100))]
        [\<lparr>key = ''06075'', attrs = Map.empty\<rparr>, \<lparr>key = ''06081'', attrs = Map.empty\<rparr>,
         \<lparr>key = ''06075'', attrs = [''slopeNDVI'' \<mapsto> Fin 7]\<rparr>]"
    by (rule conjunct1[OF attribute_writer_idempotent])
  then show ?thesis by (simp only: w)
qed

text \<open>
  C9 (bands of the trend raster).  The claim lists eight bands, the median among them.  The
  raster has seven: on any input that the function accepts, the band descriptions are the
  seven labels below, in this order.
\<close>

theorem trend_raster_bands_counterexample:
  "map_sum id (map description)
     (RasterLinModel student_t_sf True True
        [\<lparr>pixels = [Fin 1], nodata = Some (Fin (- 9999))\<rparr>,
         \<lparr>pixels = [Fin 2], nodata = Some (Fin (- 9999))\<rparr>,
         \<lparr>pixels = [Fin 4], nodata = Some (Fin (- 9999))\<rparr>] 1990 1998)
   = Inr [''covaraince'', ''correlation'', ''slope'', ''intercept'', ''tstat'', ''stderr'',
          ''pval'']"
proof -
  have bl: "band_loop [1, 4, 7] 0
        [\<lparr>pixels = [Fin 1], nodata = Some (Fin (- 9999))\<rparr>,
         \<lparr>pixels = [Fin 2], nodata = Some (Fin (- 9999))\<rparr>,
         \<lparr>pixels = [Fin 4], nodata = Some (Fin (- 9999))\<rparr>]
      = Inr ([[Fin 1], [Fin 2], [Fin 4]], [[Fin 1], [Fin 4], [Fin 7]])"
    by (simp add: read_band_def set_nan_def eq_nodata_def np_eq_def Let_def)
  show ?thesis
    unfolding RasterLinModel_def since_1990_1998 bl
    by (simp add: dstack_def Let_def write_bands_def stat_list_def stat_labs_def)
qed

text \<open>
  C9 as amended: the output raster consists of seven bands, for covariance, correlation,
  slope, intercept, t-statistic, standard error and p-value in this order (no median band).
  Each band has the no-data value -9999.0, the label of its statistic as description (the
  first one is spelled \<^verbatim>\<open>covaraince\<close>) and, as its array, that statistic of every pixel:
  the result of \<open>lin_model\<close> on the offsets of the layers and the values of the pixel.
\<close>

theorem trend_raster_bands:
  assumes "RasterLinModel sf raster_isfile cutline_isfile ds start_year end_year = Inr out"
  shows "out =
     (let res = map (\<lambda>p. lin_model sf (length ds) (entity_times (since start_year end_year) ds)
                            (entity_values ds p))
                    [0 ..< length (pixels (hd ds))]
      in [\<lparr>band_nodata = Fin (- 9999), description = ''covaraince'', band_array = map cov res\<rparr>,
          \<lparr>band_nodata = Fin (- 9999), description = ''correlation'', band_array = map cor res\<rparr>,
          \<lparr>band_nodata = Fin (- 9999), description = ''slope'', band_array = map slope res\<rparr>,
          \<lparr>band_nodata = Fin (- 9999), description = ''intercept'',
            band_array = map intercept res\<rparr>,
          \<lparr>band_nodata = Fin (- 9999), description = ''tstat'', band_array = map tstats res\<rparr>,
          \<lparr>band_nodata = Fin (- 9999), description = ''stderr'', band_array = map stderr res\<rparr>,
          \<lparr>band_nodata = Fin (- 9999), description = ''pval'', band_array = map pval res\<rparr>])"
  by (subst RasterLinModel_result[OF assms])
     (simp add: write_bands_def stat_list_def stat_labs_def Let_def)

text \<open>
  A raster of two pixels and seven bands: pixel 0 rises with the offsets, pixel 1 falls.
\<close>

theorem trend_raster_bands_witness:
  "RasterLinModel student_t_sf True True
        [\<lparr>pixels = [Fin 1, Fin 19], nodata = Some (Fin (- 9999))\<rparr>,
         \<lparr>pixels = [Fin 4, Fin 16], nodata = Some (Fin (- 9999))\<rparr>,
         \<lparr>pixels = [Fin 7, Fin 13], nodata = Some (Fin (- 9999))\<rparr>,
         \<lparr>pixels = [Fin 10, Fin 10], nodata = Some (Fin (- 9999))\<rparr>,
         \<lparr>pixels = [Fin 13, Fin 7], nodata = Some (Fin (- 9999))\<rparr>,
         \<lparr>pixels = [Fin 16, Fin 4], nodata = Some (Fin (- 9999))\<rparr>,
         \<lparr>pixels = [Fin 19, Fin 1], nodata = Some (Fin (- 9999))\<rparr>] 1990 2009
   = Inr [\<lparr>band_nodata = Fin (- 9999), description = ''covaraince'',
            band_array = [Fin 36, Fin (- 36)]\<rparr>,
          \<lparr>band_nodata = Fin (- 9999), description = ''correlation'',
            band_array = [Fin 1, Fin (- 1)]\<rparr>,
          \<lparr>band_nodata = Fin (- 9999), description = ''slope'',
            band_array = [Fin 1, Fin (- 1)]\<rparr>,
          \<lparr>band_nodata = Fin (- 9999), description = ''intercept'',
            band_array = [Fin 0, Fin 20]\<rparr>,
          \<lparr>band_nodata = Fin (- 9999), description = ''tstat'', band_array = [PInf, NInf]\<rparr>,
          \<lparr>band_nodata = Fin (- 9999), description = ''stderr'',
            band_array = [Fin 0, Fin 0]\<rparr>,
          \<lparr>band_nodata = Fin (- 9999), description = ''pval'',
            band_array = [Fin 0, Fin 2]\<rparr>]"
proof -
  let ?ds = "[\<lparr>pixels = [Fin 1, Fin 19], nodata = Some (Fin (- 9999))\<rparr>,
         \<lparr>pixels = [Fin 4, Fin 16], nodata = Some (Fin (- 9999))\<rparr>,
         \<lparr>pixels = [Fin 7, Fin 13], nodata = Some (Fin (- 9999))\<rparr>,
         \<lparr>pixels = [Fin 10, Fin 10], nodata = Some (Fin (- 9999))\<rparr>,
         \<lparr>pixels = [Fin 13, Fin 7], nodata = Some (Fin (- 9999))\<rparr>,
         \<lparr>pixels = [Fin 16, Fin 4], nodata = Some (Fin (- 9999))\<rparr>,
         \<lparr>pixels = [Fin 19, Fin 1], nodata = Some (Fin (- 9999))\<rparr>]"
  let ?T = "[Fin 1, Fin 4, Fin 7, Fin 10, Fin 13, Fin 16, Fin 19]"
  let ?V = "[Fin 19, Fin 16, Fin 13, Fin 10, Fin 7, Fin 4, Fin 1]"
  have bl: "band_loop [1, 4, 7, 10, 13, 16, 19] 0 ?ds
      = Inr ([[Fin 1, Fin 19], [Fin 4, Fin 16], [Fin 7, Fin 13], [Fin 10, Fin 10],
              [Fin 13, Fin 7], [Fin 16, Fin 4], [Fin 19, Fin 1]],
             [[Fin 1, Fin 1], [Fin 4, Fin 4], [Fin 7, Fin 7], [Fin 10, Fin 10],
              [Fin 13, Fin 13], [Fin 16, Fin 16], [Fin 19, Fin 19]])"
    by (simp add: read_band_def set_nan_def eq_nodata_def np_eq_def Let_def)
  obtain out where r: "RasterLinModel student_t_sf True True ?ds 1990 2009 = Inr out"
    unfolding RasterLinModel_def since_1990_2009 bl by (simp add: dstack_def Let_def)
  have ld: "length ?ds = 7" by simp
  have lp: "[0 ..< length (pixels (hd ?ds))] = [0, 1]" by (simp add: upt_rec)
  have et: "entity_times (since 1990 2009) ?ds = ?T"
    by (simp add: entity_times_def since_1990_2009 upt_rec)
  have e0: "entity_values ?ds 0 = ?T"
    by (simp add: entity_values_def set_nan_def eq_nodata_def np_eq_def)
  have e1: "entity_values ?ds (Suc 0) = ?V"
    by (simp add: entity_values_def set_nan_def eq_nodata_def np_eq_def)
  have s0: "lin_model student_t_sf 7 ?T ?T
      = \<lparr>cov = Fin 36, cor = Fin 1, slope = Fin 1, intercept = Fin 0, tstats = PInf,
         stderr = Fin 0, pval = Fin 0\<rparr>"
    by (simp add: lin_model_def np_defs t_sf_def)
  have s1: "lin_model student_t_sf 7 ?T ?V
      = \<lparr>cov = Fin (- 36), cor = Fin (- 1), slope = Fin (- 1), intercept = Fin 20,
         tstats = NInf, stderr = Fin 0, pval = Fin 2\<rparr>"
    by (simp add: lin_model_def np_defs t_sf_def)
  have "out =
     (let res = map (\<lambda>p. lin_model student_t_sf (length ?ds) (entity_times (since 1990 2009) ?ds)
                            (entity_values ?ds p))
                    [0 ..< length (pixels (hd ?ds))]
      in [\<lparr>band_nodata = Fin (- 9999), description = ''covaraince'', band_array = map cov res\<rparr>,
          \<lparr>band_nodata = Fin (- 9999), description = ''correlation'', band_array = map cor res\<rparr>,
          \<lparr>band_nodata = Fin (- 9999), description = ''slope'', band_array = map slope res\<rparr>,
          \<lparr>band_nodata = Fin (- 9999), description = ''intercept'',
            band_array = map intercept res\<rparr>,
          \<lparr>band_nodata = Fin (- 9999), description = ''tstat'', band_array = map tstats res\<rparr>,
          \<lparr>band_nodata = Fin (- 9999), description = ''stderr'', band_array = map stderr res\<rparr>,
          \<lparr>band_nodata = Fin (- 9999), description = ''pval'', band_array = map pval res\<rparr>])"
    by (rule trend_raster_bands[OF r])
  then have "out = [\<lparr>band_nodata = Fin (- 9999), description = ''covaraince'',
            band_array = [Fin 36, Fin (- 36)]\<rparr>,
          \<lparr>band_nodata = Fin (- 9999), description = ''correlation'',
            band_array = [Fin 1, Fin (- 1)]\<rparr>,
          \<lparr>band_nodata = Fin (- 9999), description = ''slope'',
            band_array = [Fin 1, Fin (- 1)]\<rparr>,
          \<lparr>band_nodata = Fin (- 9999), description = ''intercept'',
            band_array = [Fin 0, Fin 20]\<rparr>,
          \<lparr>band_nodata = Fin (- 9999), description = ''tstat'', band_array = [PInf, NInf]\<rparr>,
          \<lparr>band_nodata = Fin (- 9999), description = ''stderr'',
            band_array = [Fin 0, Fin 0]\<rparr>,
          \<lparr>band_nodata = Fin (- 9999), description = ''pval'',
            band_array = [Fin 0, Fin 2]\<rparr>]"
    unfolding ld lp et Let_def by (simp add: e0 e1 s0 s1)
  then show ?thesis using r by simp
qed




end
